theory Spec2Isabelle
  imports Complex_Main "HOL-Library.Word"
begin

section \<open>The transition producer of the playout server\<close>

text \<open>
  A shallow embedding of \<^verbatim>\<open>core/producer/transition/transition_producer.cpp\<close>:
  the struct \<^verbatim>\<open>transition_producer::implementation\<close> as a record, its member
  functions as functions that take the object (and the store of frames) and return
  the updated ones, its exception as a value of a sum type.

  Frames are shared, mutable objects (\<^verbatim>\<open>gpu_frame_ptr\<close> is a shared pointer):
  they live in a store, a list of frame objects addressed by position, and a
  \<^verbatim>\<open>gpu_frame_ptr\<close> is an optional address (\<open>None\<close> is \<^verbatim>\<open>nullptr\<close>).
  Values of type \<^verbatim>\<open>double\<close> are idealised as exact rationals.
\<close>

subsection \<open>Frames\<close>

record rectangle =
  rect_left :: rat
  rect_top :: rat
  rect_right :: rat
  rect_bottom :: rat

text \<open>
  Modelled from the spec: \<^verbatim>\<open>gpu_frame\<close> and \<^verbatim>\<open>gpu_composite_frame\<close>
  (frame/gpu_frame.h and frame/gpu_composite_frame.h are not part of the sources at
  hand). A frame carries 16-bit signed audio samples, an alpha (default 1), a
  translation (default (0,0)) and texture coordinates (default the unit rectangle);
  a composite frame also holds the ordered list of its child frames, back to front.
\<close>

type_synonym frame_ptr = nat

record gpu_frame =
  audio_data :: "16 word list"
  alpha :: rat
  translate :: "rat \<times> rat"
  texcoords :: rectangle
  frames :: "frame_ptr list"

type_synonym store = "gpu_frame list"

definition unit_rectangle :: rectangle where
  "unit_rectangle = \<lparr>rect_left = 0, rect_top = 1, rect_right = 1, rect_bottom = 0\<rparr>"

definition gpu_composite_frame :: gpu_frame where
  "gpu_composite_frame =
     \<lparr>audio_data = [], alpha = 1, translate = (0, 0), texcoords = unit_rectangle, frames = []\<rparr>"

text \<open>\<^verbatim>\<open>std::make_shared\<close>: a new object at a fresh address.\<close>

definition make_shared :: "gpu_frame \<Rightarrow> store \<Rightarrow> frame_ptr \<times> store" where
  "make_shared f h = (length h, h @ [f])"

text \<open>The setters of a frame write the object in place.\<close>

definition frame_alpha :: "frame_ptr \<Rightarrow> rat \<Rightarrow> store \<Rightarrow> store" where
  "frame_alpha p a h = h[p := (h ! p)\<lparr>alpha := a\<rparr>]"

definition frame_translate :: "frame_ptr \<Rightarrow> rat \<Rightarrow> rat \<Rightarrow> store \<Rightarrow> store" where
  "frame_translate p x y h = h[p := (h ! p)\<lparr>translate := (x, y)\<rparr>]"

definition frame_texcoords :: "frame_ptr \<Rightarrow> rectangle \<Rightarrow> store \<Rightarrow> store" where
  "frame_texcoords p r h = h[p := (h ! p)\<lparr>texcoords := r\<rparr>]"

definition composite_add :: "frame_ptr \<Rightarrow> frame_ptr \<Rightarrow> store \<Rightarrow> store" where
  "composite_add c p h = h[c := (h ! c)\<lparr>frames := frames (h ! c) @ [p]\<rparr>]"

subsection \<open>Child producers\<close>

type_synonym frame_factory = nat

text \<open>What one call of a child's \<^verbatim>\<open>render_frame\<close> does: it returns a frame it has
  created, returns \<^verbatim>\<open>nullptr\<close> (exhausted), or throws.\<close>

datatype outcome = Frame gpu_frame | Exhausted | Throws

text \<open>
  Modelled from the spec: \<^verbatim>\<open>frame_producer\<close> (producer/frame_producer.h is not
  part of the sources at hand), the capability set \<^verbatim>\<open>initialize\<close>,
  \<^verbatim>\<open>render_frame\<close>, \<^verbatim>\<open>get_following_producer\<close>, \<^verbatim>\<open>set_leading_producer\<close>.
  A child is given by the outcomes of its successive \<^verbatim>\<open>render_frame\<close> calls (once
  the list is used up it stays exhausted), its following producer, and what it was
  told by \<^verbatim>\<open>set_leading_producer\<close> and \<^verbatim>\<open>initialize\<close>.
\<close>

datatype frame_producer =
  Producer (script: "outcome list") (following: "frame_producer option")
    (leading: "frame_producer option") (initialized_with: "frame_factory option")

definition producer_initialize :: "frame_producer \<Rightarrow> frame_factory option \<Rightarrow> frame_producer" where
  "producer_initialize p fac = Producer (script p) (following p) (leading p) fac"

definition producer_set_leading_producer :: "frame_producer \<Rightarrow> frame_producer \<Rightarrow> frame_producer" where
  "producer_set_leading_producer p q = Producer (script p) (following p) (Some q) (initialized_with p)"

definition producer_get_following_producer :: "frame_producer \<Rightarrow> frame_producer option" where
  "producer_get_following_producer p = following p"

text \<open>The result of a child's \<^verbatim>\<open>render_frame\<close>: \<open>Inl ()\<close> when it throws, else the
  frame pointer returned; with the child and the store after the call.\<close>

definition producer_render_frame ::
  "frame_producer \<Rightarrow> store \<Rightarrow> (unit + frame_ptr option) \<times> frame_producer \<times> store" where
  "producer_render_frame p h =
     (case script p of
        [] \<Rightarrow> (Inr None, p, h)
      | oc # rest \<Rightarrow>
          (let p' = Producer rest (following p) (leading p) (initialized_with p) in
           case oc of
             Frame f \<Rightarrow> (case make_shared f h of (a, h') \<Rightarrow> (Inr (Some a), p', h'))
           | Exhausted \<Rightarrow> (Inr None, p', h)
           | Throws \<Rightarrow> (Inl (), p', h)))"

subsection \<open>Transition info\<close>

datatype transition_type = cut_type | mix | push | slide | wipe

datatype transition_direction = from_left | from_right

text \<open>
  Modelled from the spec: \<^verbatim>\<open>transition_info\<close> (transition_producer.h is not part
  of the sources at hand): a type, a direction and a duration in frames. The duration
  is held in an \<^verbatim>\<open>unsigned short\<close>, as is the frame counter it is compared with.
\<close>

record transition_info =
  type :: transition_type
  direction :: transition_direction
  duration :: "16 word"

subsection \<open>The implementation struct and its constructor\<close>

type_synonym frame_format_desc = nat

text \<open>The members of the struct, named as in the source without the trailing underscore
  (\<^verbatim>\<open>current_frame_\<close> is an \<^verbatim>\<open>unsigned short\<close>).\<close>

record implementation =
  format_desc :: frame_format_desc
  source_producer :: "frame_producer option"
  dest_producer :: "frame_producer option"
  current_frame :: "16 word"
  info :: transition_info
  factory :: "frame_factory option"

text \<open>\<^verbatim>\<open>null_argument() << arg_name_info("dest")\<close>, the exception of the constructor.\<close>

datatype error = null_argument string

definition transition_producer ::
  "frame_producer option \<Rightarrow> transition_info \<Rightarrow> frame_format_desc \<Rightarrow> error + implementation" where
  "transition_producer dest ti fmt =
     (if dest = None then Inl (null_argument ''dest'')
      else Inr \<lparr>format_desc = fmt, source_producer = None, dest_producer = dest,
                current_frame = 0, info = ti, factory = None\<rparr>)"

definition get_following_producer :: "implementation \<Rightarrow> frame_producer option" where
  "get_following_producer t = dest_producer t"

definition set_leading_producer :: "implementation \<Rightarrow> frame_producer option \<Rightarrow> implementation" where
  "set_leading_producer t producer = t\<lparr>source_producer := producer\<rparr>"

text \<open>
  \<^verbatim>\<open>initialize\<close>, lines 172 to 176, dereferences \<^verbatim>\<open>dest_producer_\<close>. The
  constructor has checked it, but \<^verbatim>\<open>render_frame\<close> sets it to \<^verbatim>\<open>nullptr\<close> when
  the dest child throws; \<^verbatim>\<open>initialize\<close> then dereferences a null pointer and does
  not return: the result is \<open>None\<close>.
\<close>

definition initialize :: "implementation \<Rightarrow> frame_factory option \<Rightarrow> implementation option" where
  "initialize t fac =
     (case dest_producer t of
        None \<Rightarrow> None
      | Some p \<Rightarrow>
          Some (t\<lparr>dest_producer := Some (producer_initialize p fac), factory := fac\<rparr>))"

subsection \<open>Rendering one child\<close>

primrec following_depth :: "frame_producer \<Rightarrow> nat" where
  "following_depth (Producer s f l i) =
     (case map_option following_depth f of None \<Rightarrow> 0 | Some n \<Rightarrow> Suc n)"

text \<open>
  \<^verbatim>\<open>render_frame(frame_producer_ptr& producer)\<close>, lines 72 to 99. The reference
  parameter is returned as the second component. A child that throws is removed; a
  child that returns \<^verbatim>\<open>nullptr\<close> and has a following producer is replaced by it,
  and the call starts again on the replacement.
\<close>

function render_frame_of ::
  "frame_factory option \<Rightarrow> frame_producer option \<Rightarrow> store
     \<Rightarrow> frame_ptr option \<times> frame_producer option \<times> store" where
  "render_frame_of fac None h = (None, None, h)"
| "render_frame_of fac (Some p) h =
     (case producer_render_frame p h of
        (Inl e, p', h') \<Rightarrow> (None, None, h')
      | (Inr (Some a), p', h') \<Rightarrow> (Some a, Some p', h')
      | (Inr None, p', h') \<Rightarrow>
          (case producer_get_following_producer p' of
             None \<Rightarrow> (None, Some p', h')
           | Some fo \<Rightarrow>
               render_frame_of fac
                 (Some (producer_set_leading_producer (producer_initialize fo fac) p')) h'))"
  by pat_completeness auto

lemma following_producer_render_frame:
  "producer_render_frame p h = (r, p', h') \<Longrightarrow> following p' = following p"
  by (auto simp: producer_render_frame_def Let_def split: list.splits outcome.splits prod.splits)

lemma following_depth_following:
  "following p = Some fo \<Longrightarrow> following_depth fo < following_depth p"
  by (cases p) auto

lemma following_depth_advance:
  "following_depth (producer_set_leading_producer (producer_initialize fo fac) q) = following_depth fo"
  by (cases fo) (simp add: producer_set_leading_producer_def producer_initialize_def)

termination render_frame_of
proof (relation "measure (\<lambda>(fac, p, h). case p of None \<Rightarrow> 0 | Some q \<Rightarrow> Suc (following_depth q))")
  show "wf (measure (\<lambda>(fac, p, h). case p of None \<Rightarrow> 0 | Some q \<Rightarrow> Suc (following_depth q)))"
    by simp
next
  fix fac :: "frame_factory option" and p :: frame_producer and h :: store
    and x1 :: "unit + frame_ptr option" and x2 :: "frame_producer \<times> store"
    and p' :: frame_producer and h' :: store and o1 :: "frame_ptr option" and fo :: frame_producer
  assume r: "(x1, x2) = producer_render_frame p h" "(p', h') = x2"
    and f: "producer_get_following_producer p' = Some fo"
  from r have "producer_render_frame p h = (x1, p', h')" by simp
  then have "following p' = following p" by (rule following_producer_render_frame)
  with f have "following p = Some fo" by (simp add: producer_get_following_producer_def)
  then have "following_depth fo < following_depth p" by (rule following_depth_following)
  then show "((fac, Some (producer_set_leading_producer (producer_initialize fo fac) p'), h'),
              (fac, Some p, h))
            \<in> measure (\<lambda>(fac, p, h). case p of None \<Rightarrow> 0 | Some q \<Rightarrow> Suc (following_depth q))"
    by (simp add: following_depth_advance)
qed

text \<open>
  Whether the handler of lines 82 to 87 runs in a call of
  \<^verbatim>\<open>render_frame(frame_producer_ptr& producer)\<close>: the child's \<^verbatim>\<open>render_frame\<close>
  throws, or that of a following producer substituted for it in the same call (line 96)
  does. The recursion is that of \<open>render_frame_of\<close>.
\<close>

function child_throws :: "frame_factory option \<Rightarrow> frame_producer option \<Rightarrow> store \<Rightarrow> bool" where
  "child_throws fac None h = False"
| "child_throws fac (Some p) h =
     (case producer_render_frame p h of
        (Inl e, p', h') \<Rightarrow> True
      | (Inr (Some a), p', h') \<Rightarrow> False
      | (Inr None, p', h') \<Rightarrow>
          (case producer_get_following_producer p' of
             None \<Rightarrow> False
           | Some fo \<Rightarrow>
               child_throws fac
                 (Some (producer_set_leading_producer (producer_initialize fo fac) p')) h'))"
  by pat_completeness auto

termination child_throws
proof (relation "measure (\<lambda>(fac, p, h). case p of None \<Rightarrow> 0 | Some q \<Rightarrow> Suc (following_depth q))")
  show "wf (measure (\<lambda>(fac, p, h). case p of None \<Rightarrow> 0 | Some q \<Rightarrow> Suc (following_depth q)))"
    by simp
next
  fix fac :: "frame_factory option" and p :: frame_producer and h :: store
    and x1 :: "unit + frame_ptr option" and x2 :: "frame_producer \<times> store"
    and p' :: frame_producer and h' :: store and fo :: frame_producer
  assume r: "(x1, x2) = producer_render_frame p h" "(p', h') = x2"
    and f: "producer_get_following_producer p' = Some fo"
  from r have "producer_render_frame p h = (x1, p', h')" by simp
  then have "following p' = following p" by (rule following_producer_render_frame)
  with f have "following p = Some fo" by (simp add: producer_get_following_producer_def)
  then have "following_depth fo < following_depth p" by (rule following_depth_following)
  then show "((fac, Some (producer_set_leading_producer (producer_initialize fo fac) p'), h'),
              (fac, Some p, h))
            \<in> measure (\<lambda>(fac, p, h). case p of None \<Rightarrow> 0 | Some q \<Rightarrow> Suc (following_depth q))"
    by (simp add: following_depth_advance)
qed

subsection \<open>Audio volume\<close>

text \<open>
  One sample of \<^verbatim>\<open>set_volume\<close>, line 107: the \<^verbatim>\<open>short\<close> is widened to
  \<^verbatim>\<open>int\<close>, multiplied, shifted right by 8 (an arithmetic shift) and cast back to
  \<^verbatim>\<open>short\<close>. The volume is between 0 and 256 in every call \<^verbatim>\<open>compose\<close> makes,
  so the product stays within 24 bits.
\<close>

definition scale_sample :: "16 word \<Rightarrow> int \<Rightarrow> 16 word" where
  "scale_sample s volume = word_of_int ((sint s * volume) div 2 ^ 8)"

fun set_volume :: "frame_ptr option \<Rightarrow> int \<Rightarrow> store \<Rightarrow> store" where
  "set_volume None volume h = h"
| "set_volume (Some p) volume h =
     h[p := (h ! p)\<lparr>audio_data := map (\<lambda>s. scale_sample s volume) (audio_data (h ! p))\<rparr>]"

subsection \<open>Composition\<close>

text \<open>Lines 127 to 163 of \<^verbatim>\<open>compose\<close>: the attributes set on the two frames, by
  transition type and direction.\<close>

definition compose_attributes ::
  "transition_info \<Rightarrow> rat \<Rightarrow> frame_ptr \<Rightarrow> frame_ptr option \<Rightarrow> store \<Rightarrow> store" where
  "compose_attributes ti a d src_frame h =
     (if type ti = mix then frame_alpha d a h
      else if type ti = slide then
        (if direction ti = from_left then frame_translate d (-1 + a) 0 h
         else if direction ti = from_right then frame_translate d (1 - a) 0 h
         else h)
      else if type ti = push then
        (if direction ti = from_left then
           (let h1 = frame_translate d (-1 + a) 0 h in
            case src_frame of None \<Rightarrow> h1 | Some s \<Rightarrow> frame_translate s (0 + a) 0 h1)
         else if direction ti = from_right then
           (let h1 = frame_translate d (1 - a) 0 h in
            case src_frame of None \<Rightarrow> h1 | Some s \<Rightarrow> frame_translate s (0 - a) 0 h1)
         else h)
      else if type ti = wipe then
        (if direction ti = from_left then
           frame_texcoords d
             \<lparr>rect_left = -1 + a, rect_top = 1, rect_right = a, rect_bottom = 0\<rparr>
             (frame_translate d (-1 + a) 0 h)
         else if direction ti = from_right then
           frame_texcoords d
             \<lparr>rect_left = 1 - a, rect_top = 1, rect_right = 2 - a, rect_bottom = 0\<rparr>
             (frame_translate d (1 - a) 0 h)
         else h)
      else h)"

text \<open>
  \<^verbatim>\<open>compose\<close>, lines 110 to 170. It reads \<^verbatim>\<open>current_frame_\<close> after
  \<^verbatim>\<open>render_frame\<close> has incremented it. The two \<^verbatim>\<open>set_volume\<close> calls of the
  \<^verbatim>\<open>parallel_invoke\<close> are taken in the order written. The cast of the non-negative
  \<^verbatim>\<open>double\<close> to \<^verbatim>\<open>int\<close> is the floor, and the floor of the exact quotient is
  the one the doubles give: the product with 256 is exact, and a quotient of two
  counters below \<open>2 ^ 16\<close> that is not a multiple of \<open>1 / 256\<close> is further from one
  than the rounding of the division can move it.
\<close>

definition compose ::
  "implementation \<Rightarrow> frame_ptr option \<Rightarrow> frame_ptr option \<Rightarrow> store \<Rightarrow> frame_ptr option \<times> store" where
  "compose t dest_frame src_frame h =
     (if type (info t) = cut_type then (src_frame, h)
      else case dest_frame of
        None \<Rightarrow> (None, h)
      | Some d \<Rightarrow>
          (let a = of_nat (unat (current_frame t)) / of_nat (unat (duration (info t)));
               volume = \<lfloor>of_nat (unat (current_frame t)) / of_nat (unat (duration (info t))) * (256 :: rat)\<rfloor>;
               h1 = set_volume dest_frame volume h;
               h2 = set_volume src_frame (256 - volume) h1;
               h3 = compose_attributes (info t) a d src_frame h2
           in case make_shared gpu_composite_frame h3 of
                (composite, h4) \<Rightarrow>
                  (Some composite,
                   composite_add composite d
                     (case src_frame of None \<Rightarrow> h4 | Some s \<Rightarrow> composite_add composite s h4))))"

subsection \<open>Rendering a frame of the transition\<close>

text \<open>
  \<^verbatim>\<open>render_frame()\<close>, lines 55 to 70. The counter is read, then incremented
  (also when the call returns \<^verbatim>\<open>nullptr\<close>), and the value read is compared with the
  duration. The two children of the \<^verbatim>\<open>parallel_invoke\<close> are rendered in the order
  written, dest first.
\<close>

definition render_frame :: "implementation \<Rightarrow> store \<Rightarrow> frame_ptr option \<times> implementation \<times> store" where
  "render_frame t h =
     (let t1 = t\<lparr>current_frame := current_frame t + 1\<rparr> in
      if duration (info t) \<le> current_frame t then (None, t1, h)
      else
        case render_frame_of (factory t1) (dest_producer t1) h of
          (dest, dp, h1) \<Rightarrow>
            (case render_frame_of (factory t1) (source_producer t1) h1 of
               (source, sp, h2) \<Rightarrow>
                 (let t2 = t1\<lparr>dest_producer := dp, source_producer := sp\<rparr> in
                  case compose t2 dest source h2 of (r, h3) \<Rightarrow> (r, t2, h3))))"

text \<open>A caller that makes \<open>n\<close> successive \<^verbatim>\<open>render_frame\<close> calls and collects what they
  return.\<close>

fun render_frames :: "nat \<Rightarrow> implementation \<Rightarrow> store \<Rightarrow> frame_ptr option list \<times> implementation \<times> store" where
  "render_frames 0 t h = ([], t, h)"
| "render_frames (Suc n) t h =
     (case render_frame t h of
        (r, t', h') \<Rightarrow>
          (case render_frames n t' h' of (rs, t'', h'') \<Rightarrow> (r # rs, t'', h'')))"

text \<open>The progress \<^verbatim>\<open>alpha\<close> of line 118 and the \<^verbatim>\<open>volume\<close> of line 119, as
  functions of the object \<^verbatim>\<open>compose\<close> reads; the volume is written with integer
  division (\<open>floor_unsigned\<close> below shows it is the floor the code takes).\<close>

definition progress :: "implementation \<Rightarrow> rat" where
  "progress t = of_nat (unat (current_frame t)) / of_nat (unat (duration (info t)))"

definition progress_volume :: "implementation \<Rightarrow> int" where
  "progress_volume t = int ((256 * unat (current_frame t)) div unat (duration (info t)))"

text \<open>A child that is present and whose next \<open>n\<close> \<^verbatim>\<open>render_frame\<close> calls each return a
  frame.\<close>

definition returns_frames :: "nat \<Rightarrow> frame_producer option \<Rightarrow> bool" where
  "returns_frames n p =
     (case p of
        None \<Rightarrow> False
      | Some q \<Rightarrow>
          n \<le> length (script q) \<and>
          list_all (\<lambda>oc. case oc of Frame f \<Rightarrow> True | Exhausted \<Rightarrow> False | Throws \<Rightarrow> False)
            (take n (script q)))"

subsection \<open>Example inputs\<close>

definition example_frame :: gpu_frame where
  "example_frame =
     \<lparr>audio_data = [10000], alpha = 1, translate = (0, 0), texcoords = unit_rectangle, frames = []\<rparr>"

text \<open>A child that returns \<open>n\<close> frames and is exhausted then.\<close>

definition example_producer :: "nat \<Rightarrow> frame_producer" where
  "example_producer n = Producer (replicate n (Frame example_frame)) None None None"

text \<open>A transition as the constructor leaves it (\<open>example_transition_constructed\<close>), with its
  source set by \<^verbatim>\<open>set_leading_producer\<close>; both children hold three frames.\<close>

definition example_transition :: "transition_type \<Rightarrow> 16 word \<Rightarrow> implementation" where
  "example_transition ty D =
     \<lparr>format_desc = 0, source_producer = Some (example_producer 3),
      dest_producer = Some (example_producer 3), current_frame = 0,
      info = \<lparr>type = ty, direction = from_left, duration = D\<rparr>, factory = None\<rparr>"

text \<open>A chain of \<open>n\<close> children that are exhausted from the start, each the following
  producer of the one before, the last one followed by \<open>q\<close> (for \<open>n = 0\<close>, \<open>q\<close> itself).\<close>

fun exhausted_chain :: "nat \<Rightarrow> frame_producer \<Rightarrow> frame_producer" where
  "exhausted_chain 0 q = q"
| "exhausted_chain (Suc n) q = Producer [] (Some (exhausted_chain n q)) None None"

section \<open>The store and the children\<close>

text \<open>Rendering a child only adds frames to the store, and a frame it returns is one of
  those added.\<close>

lemma producer_render_frame_store:
  assumes "producer_render_frame p h = (r, p', h')"
  shows "(\<exists>ys. h' = h @ ys) \<and> (\<forall>a. r = Inr (Some a) \<longrightarrow> a = length h \<and> length h' = Suc (length h))"
  using assms
  by (auto simp: producer_render_frame_def make_shared_def Let_def split: list.splits outcome.splits)

lemma render_frame_of_store:
  "render_frame_of fac p h = (r, p', h') \<Longrightarrow> \<exists>ys. h' = h @ ys"
proof (induction fac p h arbitrary: r p' h' rule: render_frame_of.induct)
  case (1 fac h)
  then show ?case by simp
next
  case (2 fac p h)
  obtain x q h1 where x: "producer_render_frame p h = (x, q, h1)"
    by (cases "producer_render_frame p h") auto
  from producer_render_frame_store[OF x] obtain ys where ys: "h1 = h @ ys" by blast
  show ?case
  proof (cases x)
    case (Inl e)
    with x "2.prems" ys show ?thesis by auto
  next
    case (Inr fr)
    show ?thesis
    proof (cases fr)
      case (Some a)
      with Inr x "2.prems" ys show ?thesis by auto
    next
      case None
      show ?thesis
      proof (cases "producer_get_following_producer q")
        case N: None
        with None Inr x "2.prems" ys show ?thesis by auto
      next
        case (Some fo)
        with None Inr x "2.prems"
        have "render_frame_of fac (Some (producer_set_leading_producer (producer_initialize fo fac) q)) h1 = (r, p', h')"
          by simp
        from "2.IH"[OF x[symmetric] Inr None refl Some this] obtain zs where "h' = h1 @ zs" by blast
        with ys show ?thesis by simp
      qed
    qed
  qed
qed

lemma render_frame_of_ptr:
  "render_frame_of fac p h = (Some a, p', h') \<Longrightarrow> length h \<le> a \<and> a < length h'"
proof (induction fac p h arbitrary: a p' h' rule: render_frame_of.induct)
  case (1 fac h)
  then show ?case by simp
next
  case (2 fac p h)
  obtain x q h1 where x: "producer_render_frame p h = (x, q, h1)"
    by (cases "producer_render_frame p h") auto
  from producer_render_frame_store[OF x] obtain ys where ys: "h1 = h @ ys" 
     and fresh: "\<And>b. x = Inr (Some b) \<Longrightarrow> b = length h \<and> length h1 = Suc (length h)" by blast
  show ?case
  proof (cases x)
    case (Inl e)
    with x "2.prems" ys show ?thesis by auto
  next
    case (Inr fr)
    show ?thesis
    proof (cases fr)
      case (Some b)
      with Inr x "2.prems" fresh[of b] show ?thesis by auto
    next
      case None
      show ?thesis
      proof (cases "producer_get_following_producer q")
        case N: None
        with None Inr x "2.prems" ys show ?thesis by auto
      next
        case (Some fo)
        with None Inr x "2.prems"
        have "render_frame_of fac (Some (producer_set_leading_producer (producer_initialize fo fac) q)) h1 = (Some a, p', h')"
          by simp
        from "2.IH"[OF x[symmetric] Inr None refl Some this] have "length h1 \<le> a \<and> a < length h'" .
        with ys show ?thesis by simp
      qed
    qed
  qed
qed

section \<open>Composition and the frame counter\<close>

lemma example_transition_constructed:
  "map_sum id (\<lambda>t. set_leading_producer t (Some (example_producer 3)))
     (transition_producer (Some (example_producer 3))
        \<lparr>type = ty, direction = from_left, duration = D\<rparr> 0)
   = Inr (example_transition ty D)"
  by (simp add: transition_producer_def set_leading_producer_def example_transition_def)

lemma length_set_volume [simp]: "length (set_volume p v h) = length h"
  by (cases p) simp_all

lemma length_compose_attributes [simp]: "length (compose_attributes ti a d s h) = length h"
  by (simp add: compose_attributes_def frame_alpha_def frame_translate_def frame_texcoords_def
        Let_def split: option.splits)

lemma compose_cut:
  "type (info t) = cut_type \<Longrightarrow> compose t dest_frame src_frame h = (src_frame, h)"
  by (simp add: compose_def)

lemma compose_no_dest:
  "type (info t) \<noteq> cut_type \<Longrightarrow> compose t None src_frame h = (None, h)"
  by (simp add: compose_def)

lemma floor_progress:
  "\<lfloor>of_nat c / of_nat d * (256 :: rat)\<rfloor> = int ((256 * c) div d)"
proof -
  have "of_nat c / of_nat d * (256 :: rat) = of_nat (256 * c) / of_nat d"
    by simp
  then show ?thesis
    by (simp only: floor_divide_of_nat_eq)
qed

lemma floor_progress':
  "\<lfloor>of_nat c * (256 :: rat) / of_nat d\<rfloor> = int ((256 * c) div d)"
  using floor_progress [of c d] by simp

lemma floor_unsigned:
  "\<lfloor>(unsigned (c :: 16 word) :: rat) * 256 / unsigned (d :: 16 word)\<rfloor> = int (256 * unat c div unat d)"
  using floor_progress' [of "unat c" "unat d"] by simp

text \<open>With a volume between 0 and 256 the scaled sample fits a \<^verbatim>\<open>short\<close>: the cast does
  not wrap, and the volume \<^verbatim>\<open>compose\<close> computes is in that range.\<close>

lemma sint_scale_sample:assumes "0 \<le> v" and "v \<le> 256"
  shows "sint (scale_sample s v) = (sint s * v) div 256"
proof -
  have lo: "- 32768 \<le> sint s" using sint_ge [of s] by simp
  have hi: "sint s < 32768" using sint_lt [of s] by simp
  have "sint s * v \<le> 32767 * 256"
  proof (cases "0 \<le> sint s")
    case True
    with hi assms have "sint s * v \<le> 32767 * 256" by (intro mult_mono) simp_all
    then show ?thesis by simp
  next
    case False
    with assms have "sint s * v \<le> 0" by (simp add: mult_le_0_iff)
    then show ?thesis by simp
  qed
  then have up: "(sint s * v) div 256 < 32768" by simp
  have "- 32768 * 256 \<le> sint s * v"
  proof (cases "0 \<le> sint s")
    case True
    with assms have "0 \<le> sint s * v" by simp
    then show ?thesis by simp
  next
    case False
    with lo assms have "(- sint s) * v \<le> 32768 * 256" by (intro mult_mono) simp_all
    then show ?thesis by simp
  qed
  then have down: "- 32768 \<le> (sint s * v) div 256" by simp
  from up down show ?thesis
    unfolding scale_sample_def
    by (simp add: sint_sbintrunc' signed_take_bit_int_eq_self)
qed


lemma volume_le_256:
  fixes c d :: nat
  assumes "c \<le> d"
  shows "256 * c div d \<le> 256"
proof (cases "d = 0")
  case True
  then show ?thesis by simp
next
  case False
  from assms have "256 * c div d \<le> 256 * d div d" by (intro div_le_mono) simp
  with False show ?thesis by simp
qed

lemma progress_volume_range:
  assumes "current_frame t \<le> duration (info t)"
  shows "0 \<le> progress_volume t \<and> progress_volume t \<le> 256"
proof -
  from assms have "unat (current_frame t) \<le> unat (duration (info t))"
    by (simp add: word_le_nat_alt)
  then have "256 * unat (current_frame t) div unat (duration (info t)) \<le> 256"
    by (rule volume_le_256)
  then have "int (256 * unat (current_frame t) div unat (duration (info t))) \<le> int 256"
    by (simp only: of_nat_le_iff)
  then show ?thesis by (simp add: progress_volume_def)
qed

lemma compose_dest:
  assumes "type (info t) \<noteq> cut_type"
  shows "compose t (Some d) src_frame h =
    (Some (length h),
     compose_attributes (info t) (progress t) d src_frame
       (set_volume src_frame (256 - progress_volume t) (set_volume (Some d) (progress_volume t) h))
     @ [gpu_composite_frame\<lparr>frames := (case src_frame of None \<Rightarrow> [] | Some s \<Rightarrow> [s]) @ [d]\<rparr>])"
  using assms
  by (cases src_frame)
     (simp_all add: compose_def Let_def make_shared_def composite_add_def floor_unsigned
        progress_def progress_volume_def gpu_composite_frame_def del: set_volume.simps)

lemma unat_current_frame_Suc:
  fixes c :: "16 word"
  assumes "c < d"
  shows "unat (c + 1) = Suc (unat c)"
proof -
  from assms have "unat c < unat d" by (simp add: word_less_nat_alt)
  moreover have "unat d < 2 ^ LENGTH(16)" by (rule unsigned_less)
  ultimately have "unat c + unat (1 :: 16 word) < 2 ^ LENGTH(16)" by simp
  then have "unat (c + 1) = unat c + unat (1 :: 16 word)" by (simp only: unat_add_lem)
  then show ?thesis by simp
qed

lemma render_frame_exhausted:
  "duration (info t) \<le> current_frame t \<Longrightarrow>
   render_frame t h = (None, t\<lparr>current_frame := current_frame t + 1\<rparr>, h)"
  by (simp add: render_frame_def)

lemma render_frame_running:
  assumes "current_frame t < duration (info t)"
    and "render_frame_of (factory t) (dest_producer t) h = (dest, dp, h1)"
    and "render_frame_of (factory t) (source_producer t) h1 = (source, sp, h2)"
  shows "render_frame t h =
    (fst (compose (t\<lparr>current_frame := current_frame t + 1, dest_producer := dp, source_producer := sp\<rparr>) dest source h2),
     t\<lparr>current_frame := current_frame t + 1, dest_producer := dp, source_producer := sp\<rparr>,
     snd (compose (t\<lparr>current_frame := current_frame t + 1, dest_producer := dp, source_producer := sp\<rparr>) dest source h2))"
  using assms
  by (simp add: render_frame_def Let_def not_le [symmetric] split: prod.splits)


lemma nth_set_volume:
  "i < length h \<Longrightarrow>
   set_volume p v h ! i =
     (if p = Some i then (h ! i)\<lparr>audio_data := map (\<lambda>s. scale_sample s v) (audio_data (h ! i))\<rparr>
      else h ! i)"
  by (cases p) (auto simp: nth_list_update)

lemma nth_list_update_if:
  "xs[i := x] ! j = (if i = j \<and> i < length xs then x else xs ! j)"
  by (cases "i < length xs") (auto simp: list_update_beyond)

lemma audio_data_compose_attributes:
  "audio_data (compose_attributes ti a d s h ! i) = audio_data (h ! i)"
  by (simp add: compose_attributes_def frame_alpha_def frame_translate_def frame_texcoords_def
        Let_def nth_list_update_if split: option.splits)

lemma render_frame_counter:
  assumes "render_frame t h = (r, t', h')"
  shows "current_frame t' = current_frame t + 1 \<and> info t' = info t \<and> factory t' = factory t"
  using assms
  by (auto simp: render_frame_def Let_def split: prod.splits if_splits)

lemma render_frames_counter:
  "render_frames n t h = (rs, t', h') \<Longrightarrow>
   current_frame t' = current_frame t + of_nat n \<and> info t' = info t \<and> factory t' = factory t \<and>
   length rs = n"
proof (induction n arbitrary: t h rs)
  case 0
  then show ?case by simp
next
  case (Suc n)
  obtain r t1 h1 where r: "render_frame t h = (r, t1, h1)"
    by (cases "render_frame t h") auto
  obtain rs' where rs': "render_frames n t1 h1 = (rs', t', h')" and rs: "rs = r # rs'"
    using Suc.prems r by (auto split: prod.splits)
  from Suc.IH[OF rs'] render_frame_counter[OF r] rs show ?case
    by (simp add: algebra_simps)
qed

lemma render_frame_of_length:
  "render_frame_of fac p h = (r, p', h') \<Longrightarrow> length h \<le> length h'"
  using render_frame_of_store [of fac p h r p' h'] by auto

lemma nth_compose_attributes_other:
  "i \<noteq> d \<Longrightarrow> Some i \<noteq> s \<Longrightarrow> compose_attributes ti a d s h ! i = h ! i"
  by (auto simp: compose_attributes_def frame_alpha_def frame_translate_def frame_texcoords_def
        Let_def split: option.splits)

lemma render_frame_composite:
  assumes nc: "type (info t) \<noteq> cut_type"
    and run: "current_frame t < duration (info t)"
    and dest: "render_frame_of (factory t) (dest_producer t) h = (Some d, dp, h1)"
    and source: "render_frame_of (factory t) (source_producer t) h1 = (source, sp, h2)"
  shows "render_frame t h =
    (Some (length h2),
     t\<lparr>current_frame := current_frame t + 1, dest_producer := dp, source_producer := sp\<rparr>,
     compose_attributes (info t)
       (of_nat (unat (current_frame t) + 1) / of_nat (unat (duration (info t)))) d source
       (set_volume source (256 - int (256 * (unat (current_frame t) + 1) div unat (duration (info t))))
          (set_volume (Some d) (int (256 * (unat (current_frame t) + 1) div unat (duration (info t)))) h2))
     @ [gpu_composite_frame\<lparr>frames := (case source of None \<Rightarrow> [] | Some s \<Rightarrow> [s]) @ [d]\<rparr>])"
proof -
  let ?t2 = "t\<lparr>current_frame := current_frame t + 1, dest_producer := dp, source_producer := sp\<rparr>"
  have nc2: "type (info ?t2) \<noteq> cut_type" using nc by simp
  have c2: "unat (current_frame ?t2) = unat (current_frame t) + 1"
    using unat_current_frame_Suc[OF run] by simp
  have pr: "progress ?t2 = of_nat (unat (current_frame t) + 1) / of_nat (unat (duration (info t)))"
    unfolding progress_def c2 by simp
  have pv: "progress_volume ?t2 = int (256 * (unat (current_frame t) + 1) div unat (duration (info t)))"
    unfolding progress_volume_def c2 by simp
  show ?thesis
    using render_frame_running[OF run dest source] compose_dest[OF nc2, of d source h2]
    unfolding pr pv by simp
qed

lemma children_frames:
  assumes dest: "render_frame_of fac p h = (Some d, dp, h1)"
    and source: "render_frame_of fac' q h1 = (source, sp, h2)"
  shows "d < length h2 \<and> (\<forall>s. source = Some s \<longrightarrow> s < length h2 \<and> d \<noteq> s)"
proof -
  from render_frame_of_ptr[OF dest] have d1: "d < length h1" by simp
  from render_frame_of_length[OF source] d1 have d2: "d < length h2" by simp
  { fix s assume "source = Some s"
    with source have "render_frame_of fac' q h1 = (Some s, sp, h2)" by simp
    from render_frame_of_ptr[OF this] d1 have "s < length h2 \<and> d \<noteq> s" by auto }
  with d2 show ?thesis by blast
qed

subsection \<open>Successive calls\<close>

lemma render_frame_of_returns_frames:
  assumes "returns_frames (Suc n) p"
  shows "\<exists>q f. render_frame_of fac p h = (Some (length h), Some q, h @ [f]) \<and>
               returns_frames n (Some q)"
proof -
  from assms obtain q0 where p: "p = Some q0" and len: "Suc n \<le> length (script q0)"
    and all: "list_all (\<lambda>oc. case oc of Frame f \<Rightarrow> True | Exhausted \<Rightarrow> False | Throws \<Rightarrow> False)
                (take (Suc n) (script q0))"
    by (auto simp: returns_frames_def split: option.splits)
  from len obtain oc rest where sc: "script q0 = oc # rest" by (cases "script q0") auto
  with all obtain f where oc: "oc = Frame f" by (cases oc) auto
  let ?q = "Producer rest (following q0) (leading q0) (initialized_with q0)"
  have "producer_render_frame q0 h = (Inr (Some (length h)), ?q, h @ [f])"
    by (simp add: producer_render_frame_def sc oc make_shared_def)
  then have "render_frame_of fac p h = (Some (length h), Some ?q, h @ [f])"
    by (simp add: p)
  moreover have "returns_frames n (Some ?q)"
    using len all by (simp add: returns_frames_def sc)
  ultimately show ?thesis by blast
qed

lemma render_frame_returns_frame:
  assumes run: "current_frame t < duration (info t)"
    and fr: "returns_frames (Suc n)
               (if type (info t) = cut_type then source_producer t else dest_producer t)"
  shows "\<exists>c t' h'. render_frame t h = (Some c, t', h') \<and>
           returns_frames n
             (if type (info t') = cut_type then source_producer t' else dest_producer t')"
proof -
  obtain dest dp h1 where dest: "render_frame_of (factory t) (dest_producer t) h = (dest, dp, h1)"
    by (cases "render_frame_of (factory t) (dest_producer t) h") auto
  obtain source sp h2 where source: "render_frame_of (factory t) (source_producer t) h1 = (source, sp, h2)"
    by (cases "render_frame_of (factory t) (source_producer t) h1") auto
  show ?thesis
  proof (cases "type (info t) = cut_type")
    case True
    with fr have "returns_frames (Suc n) (source_producer t)" by simp
    from render_frame_of_returns_frames[OF this, of "factory t" h1] source
    obtain q where "source = Some (length h1)" "sp = Some q" "returns_frames n (Some q)"
      by auto
    with render_frame_running[OF run dest source] True show ?thesis
      by (simp add: compose_cut)
  next
    case False
    with fr have "returns_frames (Suc n) (dest_producer t)" by simp
    from render_frame_of_returns_frames[OF this, of "factory t" h] dest
    obtain q where d: "dest = Some (length h)" "dp = Some q" "returns_frames n (Some q)"
      by auto
    from dest d have "render_frame_of (factory t) (dest_producer t) h = (Some (length h), dp, h1)"
      by simp
    from render_frame_composite[OF False run this source] d False show ?thesis
      by simp
  qed
qed

lemma render_frames_returns_frames:
  assumes "unat (current_frame t) + n \<le> unat (duration (info t))"
    and "returns_frames n (if type (info t) = cut_type then source_producer t else dest_producer t)"
  shows "\<exists>cs t' h'. render_frames n t h = (map Some cs, t', h') \<and> length cs = n"
  using assms
proof (induction n arbitrary: t h)
  case 0
  then show ?case by simp
next
  case (Suc n)
  from Suc.prems(1) have run: "current_frame t < duration (info t)"
    by (simp add: word_less_nat_alt)
  from render_frame_returns_frame[OF run Suc.prems(2), of h]
  obtain c t1 h1 where r: "render_frame t h = (Some c, t1, h1)"
    and fr: "returns_frames n (if type (info t1) = cut_type then source_producer t1 else dest_producer t1)"
    by blast
  from render_frame_counter[OF r] unat_current_frame_Suc[OF run] Suc.prems(1)
  have "unat (current_frame t1) + n \<le> unat (duration (info t1))" by simp
  from Suc.IH[OF this fr, of h1] obtain cs t' h' where
    "render_frames n t1 h1 = (map Some cs, t', h')" "length cs = n" by blast
  with r have "render_frames (Suc n) t h = (map Some (c # cs), t', h') \<and> length (c # cs) = Suc n"
    by simp
  then show ?case by blast
qed

lemma render_frames_add:
  "render_frames (m + n) t h =
     (case render_frames m t h of
        (rs, t', h') \<Rightarrow>
          (case render_frames n t' h' of (rs', t'', h'') \<Rightarrow> (rs @ rs', t'', h'')))"
  by (induction m arbitrary: t h) (auto split: prod.splits)

lemma render_frames_then_exhausted:
  assumes zero: "current_frame t = 0"
    and fr: "returns_frames (unat (duration (info t)))
               (if type (info t) = cut_type then source_producer t else dest_producer t)"
  shows "\<exists>cs. length cs = unat (duration (info t)) \<and>
           fst (render_frames (Suc (unat (duration (info t)))) t h) = map Some cs @ [None]"
proof -
  let ?D = "unat (duration (info t))"
  from zero have "unat (current_frame t) + ?D \<le> ?D" by simp
  from render_frames_returns_frames[OF this fr, of h] obtain cs t' h' where
    rs: "render_frames ?D t h = (map Some cs, t', h')" and len: "length cs = ?D" by blast
  from render_frames_counter[OF rs] zero
  have "current_frame t' = duration (info t')" by simp
  then have "render_frame t' h' = (None, t'\<lparr>current_frame := current_frame t' + 1\<rparr>, h')"
    by (simp add: render_frame_exhausted)
  with rs have "fst (render_frames (?D + 1) t h) = map Some cs @ [None]"
    unfolding render_frames_add by simp
  with len show ?thesis by auto
qed

lemma unat_current_frame_Suc_le:
  fixes c :: "16 word"
  shows "unat (c + 1) \<le> unat c + 1"
  by (simp add: unat_word_ariths)

lemma render_frames_exhausted:
  assumes "unat (current_frame t) + n \<le> 2 ^ 16"
    and "0 < n \<longrightarrow> duration (info t) \<le> current_frame t"
  shows "render_frames n t h = (replicate n None, t\<lparr>current_frame := current_frame t + of_nat n\<rparr>, h)"
  using assms
proof (induction n arbitrary: t)
  case 0
  then show ?case by simp
next
  case (Suc n)
  let ?t1 = "t\<lparr>current_frame := current_frame t + 1\<rparr>"
  from Suc.prems have r: "render_frame t h = (None, ?t1, h)"
    by (simp add: render_frame_exhausted)
  have b: "unat (current_frame ?t1) + n \<le> 2 ^ 16"
    using Suc.prems(1) unat_current_frame_Suc_le[of "current_frame t"] by simp
  have e: "0 < n \<longrightarrow> duration (info ?t1) \<le> current_frame ?t1"
  proof
    assume "0 < n"
    with Suc.prems(1) have "unat (current_frame t) + unat (1 :: 16 word) < 2 ^ LENGTH(16)" by simp
    then have "unat (current_frame t + 1) = unat (current_frame t) + unat (1 :: 16 word)"
      by (simp only: unat_add_lem)
    with Suc.prems(2) show "duration (info ?t1) \<le> current_frame ?t1"
      by (simp add: word_le_nat_alt)
  qed
  from Suc.IH[OF b e] r show ?case
    by (simp add: algebra_simps)
qed

lemma fst_render_frames_add:
  "fst (render_frames (m + n) t h) =
     fst (render_frames m t h) @
     fst (render_frames n (fst (snd (render_frames m t h))) (snd (snd (render_frames m t h))))"
  by (simp add: render_frames_add split: prod.splits)

subsection \<open>Absent children\<close>

lemma render_frame_dest_absent:
  assumes "dest_producer t = None"
  shows "dest_producer (fst (snd (render_frame t h))) = None \<and>
         (type (info t) \<noteq> cut_type \<longrightarrow> fst (render_frame t h) = None)"
  using assms
  by (auto simp: render_frame_def Let_def compose_def split: prod.splits)

lemma render_frame_source_absent:
  assumes "source_producer t = None"
  shows "source_producer (fst (snd (render_frame t h))) = None"
  using assms
  by (auto simp: render_frame_def Let_def split: prod.splits)

lemma render_frames_dest_absent:
  "dest_producer t = None \<Longrightarrow>
   dest_producer (fst (snd (render_frames n t h))) = None \<and>
   (type (info t) \<noteq> cut_type \<longrightarrow> fst (render_frames n t h) = replicate n None)"
proof (induction n arbitrary: t h)
  case 0
  then show ?case by simp
next
  case (Suc n)
  obtain r t1 h1 where r: "render_frame t h = (r, t1, h1)"
    by (cases "render_frame t h") auto
  from render_frame_dest_absent[OF Suc.prems, of h] r
  have d1: "dest_producer t1 = None" and r1: "type (info t) \<noteq> cut_type \<longrightarrow> r = None" by simp_all
  from render_frame_counter[OF r] have i1: "info t1 = info t" by simp
  from Suc.IH[OF d1, of h1] r r1 i1 show ?case
    by (auto split: prod.splits)
qed

lemma render_frames_source_absent:
  "source_producer t = None \<Longrightarrow> source_producer (fst (snd (render_frames n t h))) = None"
proof (induction n arbitrary: t h)
  case 0
  then show ?case by simp
next
  case (Suc n)
  obtain r t1 h1 where r: "render_frame t h = (r, t1, h1)"
    by (cases "render_frame t h") auto
  from render_frame_source_absent[OF Suc.prems, of h] r
  have "source_producer t1 = None" by simp
  from Suc.IH[OF this, of h1] r show ?case
    by (auto split: prod.splits)
qed

subsection \<open>Following producers\<close>

lemma render_frame_of_advance:
  assumes "producer_render_frame p h = (Inr None, p', h')"
    and "producer_get_following_producer p' = Some fo"
  shows "render_frame_of fac (Some p) h =
           render_frame_of fac (Some (Producer (script fo) (following fo) (Some p') fac)) h'"
  using assms
  by (simp add: producer_set_leading_producer_def producer_initialize_def)

lemma render_frame_of_chain:
  assumes q: "script q = Frame f # rest"
  shows "\<exists>l' i'. render_frame_of fac
                   (Some (Producer (script (exhausted_chain n q)) (following (exhausted_chain n q)) l i)) h
                 = (Some (length h), Some (Producer rest (following q) l' i'), h @ [f]) \<and>
               (n = 0 \<longrightarrow> l' = l \<and> i' = i) \<and> (0 < n \<longrightarrow> l' \<noteq> None \<and> i' = fac)"
proof (induction n arbitrary: l i)
  case 0
  show ?case
    by (simp add: q producer_render_frame_def make_shared_def)
next
  case (Suc n)
  let ?head = "Producer [] (Some (exhausted_chain n q)) l i"
  have r: "producer_render_frame ?head h = (Inr None, ?head, h)"
    by (simp add: producer_render_frame_def)
  have fo: "producer_get_following_producer ?head = Some (exhausted_chain n q)"
    by (simp add: producer_get_following_producer_def)
  from render_frame_of_advance[OF r fo, of fac]
  have step: "render_frame_of fac (Some ?head) h =
          render_frame_of fac
            (Some (Producer (script (exhausted_chain n q)) (following (exhausted_chain n q))
                     (Some ?head) fac)) h" .
  from Suc.IH[of "Some ?head" fac] obtain l' i' where
    "render_frame_of fac
       (Some (Producer (script (exhausted_chain n q)) (following (exhausted_chain n q))
                (Some ?head) fac)) h
     = (Some (length h), Some (Producer rest (following q) l' i'), h @ [f])"
    and "n = 0 \<longrightarrow> l' = Some ?head \<and> i' = fac" and "0 < n \<longrightarrow> l' \<noteq> None \<and> i' = fac"
    by blast
  with step have "render_frame_of fac (Some ?head) h
                  = (Some (length h), Some (Producer rest (following q) l' i'), h @ [f]) \<and>
                  l' \<noteq> None \<and> i' = fac"
    by (cases n) auto
  then show ?case by simp
qed

subsection \<open>The frames written by a call\<close>

lemma compose_attributes_dest:
  assumes "d < length g" and "\<forall>s. src = Some s \<longrightarrow> s < length g \<and> s \<noteq> d"
  shows "compose_attributes ti a d src g ! d =
     (case type ti of
        cut_type \<Rightarrow> g ! d
      | mix \<Rightarrow> (g ! d)\<lparr>alpha := a\<rparr>
      | push \<Rightarrow> (g ! d)\<lparr>translate := (if direction ti = from_left then - 1 + a else 1 - a, 0)\<rparr>
      | slide \<Rightarrow> (g ! d)\<lparr>translate := (if direction ti = from_left then - 1 + a else 1 - a, 0)\<rparr>
      | wipe \<Rightarrow>
          (g ! d)\<lparr>translate := (if direction ti = from_left then - 1 + a else 1 - a, 0),
                  texcoords :=
                    (if direction ti = from_left
                     then \<lparr>rect_left = - 1 + a, rect_top = 1, rect_right = a, rect_bottom = 0\<rparr>
                     else \<lparr>rect_left = 1 - a, rect_top = 1, rect_right = 2 - a, rect_bottom = 0\<rparr>)\<rparr>)"
  using assms
  by (cases "type ti"; cases "direction ti"; cases src)
     (simp_all add: compose_attributes_def frame_alpha_def frame_translate_def frame_texcoords_def
        Let_def)

lemma compose_attributes_source:
  assumes "s < length g" and "s \<noteq> d"
  shows "compose_attributes ti a d (Some s) g ! s =
     (if type ti = push
      then (g ! s)\<lparr>translate := (if direction ti = from_left then a else - a, 0)\<rparr>
      else g ! s)"
  using assms
  by (cases "type ti"; cases "direction ti")
     (simp_all add: compose_attributes_def frame_alpha_def frame_translate_def frame_texcoords_def
        Let_def)

lemma render_frame_written_frames:
  assumes nc: "type (info t) \<noteq> cut_type"
    and run: "current_frame t < duration (info t)"
    and dest: "render_frame_of (factory t) (dest_producer t) h = (Some d, dp, h1)"
    and source: "render_frame_of (factory t) (source_producer t) h1 = (source, sp, h2)"
  shows "(let a = of_nat (unat (current_frame t) + 1) / of_nat (unat (duration (info t)));
                    v = int (256 * (unat (current_frame t) + 1) div unat (duration (info t)));
                    fd = (h2 ! d)\<lparr>audio_data := map (\<lambda>x. scale_sample x v) (audio_data (h2 ! d))\<rparr>;
                    tx = (if direction (info t) = from_left then - 1 + a else 1 - a);
                    tc = (if direction (info t) = from_left
                          then \<lparr>rect_left = - 1 + a, rect_top = 1, rect_right = a, rect_bottom = 0\<rparr>
                          else \<lparr>rect_left = 1 - a, rect_top = 1, rect_right = 2 - a, rect_bottom = 0\<rparr>)
                in snd (snd (render_frame t h)) ! d =
                     (case type (info t) of
                        cut_type \<Rightarrow> h2 ! d
                      | mix \<Rightarrow> fd\<lparr>alpha := a\<rparr>
                      | push \<Rightarrow> fd\<lparr>translate := (tx, 0)\<rparr>
                      | slide \<Rightarrow> fd\<lparr>translate := (tx, 0)\<rparr>
                      | wipe \<Rightarrow> fd\<lparr>translate := (tx, 0), texcoords := tc\<rparr>) \<and>
                   (\<forall>s. source = Some s \<longrightarrow>
                      snd (snd (render_frame t h)) ! s =
                        (let fs = (h2 ! s)\<lparr>audio_data :=
                                     map (\<lambda>x. scale_sample x (256 - v)) (audio_data (h2 ! s))\<rparr>
                         in if type (info t) = push
                            then fs\<lparr>translate := (if direction (info t) = from_left then a else - a, 0)\<rparr>
                            else fs)))"
proof -
  note rf = render_frame_composite[OF nc run dest source]
  from children_frames[OF dest source] have d2: "d < length h2"
    and s2: "\<forall>s. source = Some s \<longrightarrow> s < length h2 \<and> s \<noteq> d" by auto
  let ?v = "int (256 * (unat (current_frame t) + 1) div unat (duration (info t)))"
  let ?g = "set_volume source (256 - ?v) (set_volume (Some d) ?v h2)"
  have gd: "?g ! d = (h2 ! d)\<lparr>audio_data := map (\<lambda>x. scale_sample x ?v) (audio_data (h2 ! d))\<rparr>"
    using d2 s2 by (cases source) (simp_all add: nth_set_volume del: set_volume.simps)
  have gs: "?g ! s = (h2 ! s)\<lparr>audio_data := map (\<lambda>x. scale_sample x (256 - ?v)) (audio_data (h2 ! s))\<rparr>"
    if "source = Some s" for s
    using that s2 by (simp add: nth_set_volume del: set_volume.simps)
  have lg: "length ?g = length h2" by simp
  have d: "snd (snd (render_frame t h)) ! d =
           compose_attributes (info t)
             (of_nat (unat (current_frame t) + 1) / of_nat (unat (duration (info t)))) d source ?g ! d"
    unfolding rf using d2 by (simp add: nth_append del: set_volume.simps)
  have s: "snd (snd (render_frame t h)) ! s =
           compose_attributes (info t)
             (of_nat (unat (current_frame t) + 1) / of_nat (unat (duration (info t)))) d (Some s) ?g ! s"
    if "source = Some s" for s
    unfolding rf using that s2 by (simp add: nth_append del: set_volume.simps)
  have cd: "d < length ?g" and cs: "\<forall>s. source = Some s \<longrightarrow> s < length ?g \<and> s \<noteq> d"
    using d2 s2 by (simp_all del: set_volume.simps)
  show ?thesis
    unfolding Let_def
  proof (intro conjI allI impI)
    show "snd (snd (render_frame t h)) ! d =
      (case type (info t) of
         cut_type \<Rightarrow> h2 ! d
       | mix \<Rightarrow> (h2 ! d)\<lparr>audio_data := map (\<lambda>x. scale_sample x ?v) (audio_data (h2 ! d))\<rparr>
            \<lparr>alpha := of_nat (unat (current_frame t) + 1) / of_nat (unat (duration (info t)))\<rparr>
       | push \<Rightarrow> (h2 ! d)\<lparr>audio_data := map (\<lambda>x. scale_sample x ?v) (audio_data (h2 ! d))\<rparr>
            \<lparr>translate :=
               (if direction (info t) = from_left
                then - 1 + of_nat (unat (current_frame t) + 1) / of_nat (unat (duration (info t)))
                else 1 - of_nat (unat (current_frame t) + 1) / of_nat (unat (duration (info t))), 0)\<rparr>
       | slide \<Rightarrow> (h2 ! d)\<lparr>audio_data := map (\<lambda>x. scale_sample x ?v) (audio_data (h2 ! d))\<rparr>
            \<lparr>translate :=
               (if direction (info t) = from_left
                then - 1 + of_nat (unat (current_frame t) + 1) / of_nat (unat (duration (info t)))
                else 1 - of_nat (unat (current_frame t) + 1) / of_nat (unat (duration (info t))), 0)\<rparr>
       | wipe \<Rightarrow> (h2 ! d)\<lparr>audio_data := map (\<lambda>x. scale_sample x ?v) (audio_data (h2 ! d))\<rparr>
            \<lparr>translate :=
               (if direction (info t) = from_left
                then - 1 + of_nat (unat (current_frame t) + 1) / of_nat (unat (duration (info t)))
                else 1 - of_nat (unat (current_frame t) + 1) / of_nat (unat (duration (info t))), 0),
             texcoords :=
               (if direction (info t) = from_left
                then \<lparr>rect_left = - 1 + of_nat (unat (current_frame t) + 1) / of_nat (unat (duration (info t))),
                       rect_top = 1,
                       rect_right = of_nat (unat (current_frame t) + 1) / of_nat (unat (duration (info t))),
                       rect_bottom = 0\<rparr>
                else \<lparr>rect_left = 1 - of_nat (unat (current_frame t) + 1) / of_nat (unat (duration (info t))),
                       rect_top = 1,
                       rect_right = 2 - of_nat (unat (current_frame t) + 1) / of_nat (unat (duration (info t))),
                       rect_bottom = 0\<rparr>)\<rparr>)"
      unfolding d compose_attributes_dest[OF cd cs] gd using nc
      by (cases "type (info t)") simp_all
  next
    fix s assume src: "source = Some s"
    with cs have "s < length ?g" "s \<noteq> d" by simp_all
    note ca = compose_attributes_source[OF this, of "info t"]
    show "snd (snd (render_frame t h)) ! s =
      (if type (info t) = push
       then (h2 ! s)\<lparr>audio_data := map (\<lambda>x. scale_sample x (256 - ?v)) (audio_data (h2 ! s))\<rparr>
              \<lparr>translate :=
                 (if direction (info t) = from_left
                  then of_nat (unat (current_frame t) + 1) / of_nat (unat (duration (info t)))
                  else - (of_nat (unat (current_frame t) + 1) / of_nat (unat (duration (info t)))), 0)\<rparr>
       else (h2 ! s)\<lparr>audio_data := map (\<lambda>x. scale_sample x (256 - ?v)) (audio_data (h2 ! s))\<rparr>)"
      by (simp only: s[OF src] ca gs[OF src])
  qed
qed

lemma render_frame_in_place:
  assumes run: "current_frame t < duration (info t)"
    and dest: "render_frame_of (factory t) (dest_producer t) h = (dest, dp, h1)"
    and source: "render_frame_of (factory t) (source_producer t) h1 = (source, sp, h2)"
  shows "(type (info t) = cut_type \<or> dest = None \<longrightarrow> snd (snd (render_frame t h)) = h2) \<and>
         (type (info t) \<noteq> cut_type \<longrightarrow>
            (\<forall>d. dest = Some d \<longrightarrow>
               fst (render_frame t h) = Some (length h2) \<and>
               length (snd (snd (render_frame t h))) = Suc (length h2) \<and>
               frames (snd (snd (render_frame t h)) ! length h2) =
                 (case source of None \<Rightarrow> [] | Some s \<Rightarrow> [s]) @ [d] \<and>
               audio_data (snd (snd (render_frame t h)) ! d) =
                 map (\<lambda>x. scale_sample x
                        (int (256 * (unat (current_frame t) + 1) div unat (duration (info t)))))
                   (audio_data (h2 ! d)) \<and>
               (\<forall>s. source = Some s \<longrightarrow>
                  audio_data (snd (snd (render_frame t h)) ! s) =
                    map (\<lambda>x. scale_sample x
                           (256 - int (256 * (unat (current_frame t) + 1) div unat (duration (info t)))))
                      (audio_data (h2 ! s))) \<and>
               (type (info t) = mix \<longrightarrow>
                  alpha (snd (snd (render_frame t h)) ! d) =
                    of_nat (unat (current_frame t) + 1) / of_nat (unat (duration (info t)))) \<and>
               (\<forall>i < length h2. i \<noteq> d \<and> Some i \<noteq> source \<longrightarrow>
                  snd (snd (render_frame t h)) ! i = h2 ! i)))"
proof (intro conjI impI allI)
  assume "type (info t) = cut_type \<or> dest = None"
  with render_frame_running[OF run dest source] show "snd (snd (render_frame t h)) = h2"
    by (cases "type (info t) = cut_type") (auto simp: compose_cut compose_no_dest)
next
  fix d assume nc: "type (info t) \<noteq> cut_type" and d: "dest = Some d"
  from dest d have dest': "render_frame_of (factory t) (dest_producer t) h = (Some d, dp, h1)" by simp
  note rf = render_frame_composite[OF nc run dest' source]
  from children_frames[OF dest' source] have d2: "d < length h2"
    and s2: "\<And>s. source = Some s \<Longrightarrow> s < length h2 \<and> d \<noteq> s" by simp_all
  show "fst (render_frame t h) = Some (length h2)" unfolding rf by simp
  show "length (snd (snd (render_frame t h))) = Suc (length h2)" unfolding rf by simp
  show "frames (snd (snd (render_frame t h)) ! length h2) =
          (case source of None \<Rightarrow> [] | Some s \<Rightarrow> [s]) @ [d]"
    unfolding rf by (simp add: nth_append gpu_composite_frame_def)
  show "audio_data (snd (snd (render_frame t h)) ! d) =
          map (\<lambda>x. scale_sample x
                 (int (256 * (unat (current_frame t) + 1) div unat (duration (info t)))))
            (audio_data (h2 ! d))"
    unfolding rf using d2 s2
    by (cases source)
       (simp_all add: nth_append audio_data_compose_attributes nth_set_volume del: set_volume.simps)
  { fix s assume s: "source = Some s"
    with s2 have "s < length h2" "d \<noteq> s" by simp_all
    then show "audio_data (snd (snd (render_frame t h)) ! s) =
            map (\<lambda>x. scale_sample x
                   (256 - int (256 * (unat (current_frame t) + 1) div unat (duration (info t)))))
              (audio_data (h2 ! s))"
      unfolding rf s
      by (simp add: nth_append audio_data_compose_attributes nth_set_volume del: set_volume.simps) }
  { assume "type (info t) = mix"
    then show "alpha (snd (snd (render_frame t h)) ! d) =
                 of_nat (unat (current_frame t) + 1) / of_nat (unat (duration (info t)))"
      unfolding rf using d2
      by (simp add: nth_append compose_attributes_def frame_alpha_def del: set_volume.simps) }
  { fix i assume "i < length h2" and "i \<noteq> d \<and> Some i \<noteq> source"
    then show "snd (snd (render_frame t h)) ! i = h2 ! i"
      unfolding rf
      by (auto simp add: nth_append nth_compose_attributes_other nth_set_volume simp del: set_volume.simps) }
qed

subsection \<open>Children that throw\<close>

lemma child_throws_iff:
  "child_throws fac p h \<longleftrightarrow> p \<noteq> None \<and> fst (snd (render_frame_of fac p h)) = None"
proof (induction fac p h rule: render_frame_of.induct)
  case (1 fac h)
  show ?case by simp
next
  case (2 fac p h)
  obtain x q h1 where x: "producer_render_frame p h = (x, q, h1)"
    by (cases "producer_render_frame p h") auto
  show ?case
  proof (cases x)
    case (Inl e)
    with x show ?thesis by simp
  next
    case (Inr fr)
    show ?thesis
    proof (cases fr)
      case (Some b)
      with Inr x show ?thesis by simp
    next
      case None
      show ?thesis
      proof (cases "producer_get_following_producer q")
        case N: None
        with None Inr x show ?thesis by simp
      next
        case (Some fo)
        from "2.IH"[OF x[symmetric] Inr None refl Some] None Inr x Some
        show ?thesis by simp
      qed
    qed
  qed
qed

lemma child_throws_removed:
  assumes "child_throws fac p h" and "render_frame_of fac p h = (r, p', h')"
  shows "r = None \<and> p' = None"
  using assms
proof (induction fac p h arbitrary: r p' h' rule: render_frame_of.induct)
  case (1 fac h)
  then show ?case by simp
next
  case (2 fac p h)
  obtain x q h1 where x: "producer_render_frame p h = (x, q, h1)"
    by (cases "producer_render_frame p h") auto
  show ?case
  proof (cases x)
    case (Inl e)
    with x "2.prems" show ?thesis by simp
  next
    case (Inr fr)
    show ?thesis
    proof (cases fr)
      case (Some b)
      with Inr x "2.prems" show ?thesis by simp
    next
      case None
      show ?thesis
      proof (cases "producer_get_following_producer q")
        case N: None
        with None Inr x "2.prems" show ?thesis by simp
      next
        case (Some fo)
        with None Inr x "2.prems"
        have a: "child_throws fac (Some (producer_set_leading_producer (producer_initialize fo fac) q)) h1"
          and b: "render_frame_of fac (Some (producer_set_leading_producer (producer_initialize fo fac) q)) h1
                    = (r, p', h')"
          by simp_all
        from "2.IH"[OF x[symmetric] Inr None refl Some a b] show ?thesis .
      qed
    qed
  qed
qed

lemma child_throws_advance:
  assumes "producer_render_frame p h = (Inr None, p', h')"
    and "producer_get_following_producer p' = Some fo"
  shows "child_throws fac (Some p) h =
           child_throws fac (Some (Producer (script fo) (following fo) (Some p') fac)) h'"
  using assms
  by (simp add: producer_set_leading_producer_def producer_initialize_def)

lemma render_frames_Suc_state:
  "fst (render_frames (Suc m) t h) =
     fst (render_frame t h) #
     fst (render_frames m (fst (snd (render_frame t h))) (snd (snd (render_frame t h))))"
  "snd (render_frames (Suc m) t h) =
     snd (render_frames m (fst (snd (render_frame t h))) (snd (snd (render_frame t h))))"
  by (simp_all split: prod.splits)

lemma render_frame_without_source:
  assumes "source_producer t = None"
  shows "(type (info t) = cut_type \<longrightarrow> fst (render_frame t h) = None) \<and>
         (type (info t) \<noteq> cut_type \<and> current_frame t < duration (info t) \<longrightarrow>
            (\<forall>d dp g. render_frame_of (factory t) (dest_producer t) h = (Some d, dp, g) \<longrightarrow>
               (\<exists>c. fst (render_frame t h) = Some c \<and>
                    frames (snd (snd (render_frame t h)) ! c) = [d]))) \<and>
         (type (info t) \<noteq> cut_type \<and>
          fst (render_frame_of (factory t) (dest_producer t) h) = None \<longrightarrow>
            fst (render_frame t h) = None)"
proof (intro conjI impI allI)
  assume "type (info t) = cut_type"
  with assms show "fst (render_frame t h) = None"
    by (auto simp: render_frame_def Let_def compose_cut split: prod.splits)
next
  fix d dp g
  assume a: "type (info t) \<noteq> cut_type \<and> current_frame t < duration (info t)"
    and dest: "render_frame_of (factory t) (dest_producer t) h = (Some d, dp, g)"
  from assms have source: "render_frame_of (factory t) (source_producer t) g = (None, None, g)"
    by simp
  from a have nc: "type (info t) \<noteq> cut_type" and run: "current_frame t < duration (info t)"
    by simp_all
  from render_frame_composite[OF nc run dest source]
  show "\<exists>c. fst (render_frame t h) = Some c \<and> frames (snd (snd (render_frame t h)) ! c) = [d]"
    by (simp add: nth_append gpu_composite_frame_def)
next
  assume "type (info t) \<noteq> cut_type \<and> fst (render_frame_of (factory t) (dest_producer t) h) = None"
  then show "fst (render_frame t h) = None"
    by (auto simp: render_frame_def Let_def compose_no_dest split: prod.splits)
qed

lemma render_frame_without_dest:
  assumes "dest_producer t = None"
  shows "fst (render_frame t h) =
           (if type (info t) = cut_type \<and> current_frame t < duration (info t)
            then fst (render_frame_of (factory t) (source_producer t) h) else None)"
  using assms
  by (auto simp: render_frame_def Let_def compose_cut compose_no_dest not_le [symmetric]
        split: prod.splits)

section \<open>Construction\<close>

text \<open>
  Claim C2, as the spec states it: constructing a transition producer with
  \<open>duration = 0\<close> fails with InvalidArgument. It does not: the constructor checks
  \<open>dest\<close> only, and with a dest present and duration 0 it returns the object.
\<close>

theorem transition_producer_duration_0_counterexample:
  "transition_producer (Some (Producer [] None None None))
      \<lparr>type = mix, direction = from_left, duration = 0\<rparr> 0
   = Inr \<lparr>format_desc = 0, source_producer = None,
          dest_producer = Some (Producer [] None None None), current_frame = 0,
          info = \<lparr>type = mix, direction = from_left, duration = 0\<rparr>, factory = None\<rparr>"
  by (simp add: transition_producer_def)

text \<open>
  Claim C2, amended: constructing a transition producer raises (\<open>null_argument\<close>
  naming \<open>dest\<close>) if and only if \<open>dest\<close> is absent; with a dest present it succeeds
  for every duration, 0 included, and yields an object with the counter at 0, no
  source, the given dest and the given info.
\<close>

theorem transition_producer_raises_iff:
  "((\<exists>e. transition_producer dest ti fmt = Inl e) \<longleftrightarrow> dest = None) \<and>
   (dest = None \<longrightarrow> transition_producer dest ti fmt = Inl (null_argument ''dest'')) \<and>
   (dest \<noteq> None \<longrightarrow>
      (\<exists>t. transition_producer dest ti fmt = Inr t \<and> current_frame t = 0 \<and>
           source_producer t = None \<and> dest_producer t = dest \<and> info t = ti \<and>
           factory t = None))"
  by (simp add: transition_producer_def)

theorem transition_producer_raises_iff_witness:
  "transition_producer None \<lparr>type = mix, direction = from_left, duration = 5\<rparr> 0
     = Inl (null_argument ''dest'') \<and>
   Some (Producer [] None None None) \<noteq> None \<and>
   (\<exists>t. transition_producer (Some (Producer [] None None None))
           \<lparr>type = mix, direction = from_left, duration = 0\<rparr> 0 = Inr t \<and>
        current_frame t = 0 \<and> source_producer t = None)"
  using transition_producer_raises_iff
          [of None "\<lparr>type = mix, direction = from_left, duration = 5\<rparr>" 0]
        transition_producer_raises_iff
          [of "Some (Producer [] None None None)"
              "\<lparr>type = mix, direction = from_left, duration = 0\<rparr>" 0]
  by auto

section \<open>Mix\<close>

text \<open>
  Claim C1, as the spec states it: on the k-th render_frame call (0-indexed) of a mix
  with duration D the alpha set on the dest frame is k/D and the volume applied to
  the dest audio is the floor of 256 k/D, the source's 256 minus that. At k = 0 and
  D = 10 that would be alpha 0, dest samples scaled by 0 and source samples by 256.
  The code sets alpha 1/10 and scales by 25 and 231: \<^verbatim>\<open>compose\<close> reads the counter
  after its increment. Frame 0 is the dest's, frame 1 the source's.
\<close>

theorem mix_progress_counterexample:
  "fst (render_frame (example_transition mix 10) []) = Some 2 \<and>
   alpha (snd (snd (render_frame (example_transition mix 10) [])) ! 0) = 1 / 10 \<and>
   alpha (snd (snd (render_frame (example_transition mix 10) [])) ! 0) \<noteq> 0 / 10 \<and>
   audio_data (snd (snd (render_frame (example_transition mix 10) [])) ! 0) = [scale_sample 10000 25] \<and>
   audio_data (snd (snd (render_frame (example_transition mix 10) [])) ! 0) \<noteq> [scale_sample 10000 0] \<and>
   audio_data (snd (snd (render_frame (example_transition mix 10) [])) ! 1) = [scale_sample 10000 231] \<and>
   audio_data (snd (snd (render_frame (example_transition mix 10) [])) ! 1) \<noteq> [scale_sample 10000 256]"
  by code_simp

text \<open>
  Claim C1, amended: for a mix transition with duration D whose two children both
  return a frame, on the k-th render_frame call (0-indexed, 0 <= k < D) the alpha set
  on the dest frame equals (k+1)/D, the integer volume applied to the dest frame's
  audio samples equals the floor of 256 (k+1)/D, and the volume applied to the source
  frame's audio samples equals 256 minus that value.
\<close>

theorem mix_progress:
  assumes mix: "type (info t0) = mix"
    and zero: "current_frame t0 = 0"
    and calls: "render_frames k t0 h0 = (rs, t, h)"
    and k: "k < unat (duration (info t0))"
    and dest: "render_frame_of (factory t) (dest_producer t) h = (Some d, dp, h1)"
    and source: "render_frame_of (factory t) (source_producer t) h1 = (Some s, sp, h2)"
  shows "\<exists>c t' h3. render_frame t h = (Some c, t', h3) \<and>
           alpha (h3 ! d) = of_nat (k + 1) / of_nat (unat (duration (info t0))) \<and>
           audio_data (h3 ! d) =
             map (\<lambda>x. scale_sample x (int (256 * (k + 1) div unat (duration (info t0)))))
               (audio_data (h2 ! d)) \<and>
           audio_data (h3 ! s) =
             map (\<lambda>x. scale_sample x (256 - int (256 * (k + 1) div unat (duration (info t0)))))
               (audio_data (h2 ! s))"
proof -
  let ?D = "duration (info t0)"
  from render_frames_counter[OF calls] zero
  have cf: "current_frame t = of_nat k" and inf: "info t = info t0" by simp_all
  have "unat ?D < 2 ^ LENGTH(16)" by (rule unsigned_less)
  with k have kk: "unat (of_nat k :: 16 word) = k" by (simp add: unat_of_nat)
  with k cf inf have run: "current_frame t < duration (info t)"
    by (simp add: word_less_nat_alt)
  let ?t2 = "t\<lparr>current_frame := current_frame t + 1, dest_producer := dp, source_producer := sp\<rparr>"
  have nc: "type (info ?t2) \<noteq> cut_type" using mix inf by simp
  from unat_current_frame_Suc[OF run] cf kk
  have c2: "unat (current_frame ?t2) = k + 1" by simp
  have pr: "progress ?t2 = of_nat (k + 1) / of_nat (unat ?D)"
    unfolding progress_def c2 using inf by simp
  have pv: "progress_volume ?t2 = int (256 * (k + 1) div unat ?D)"
    unfolding progress_volume_def c2 using inf by simp
  from render_frame_of_ptr[OF dest] have d1: "d < length h1" by simp
  from render_frame_of_ptr[OF source] have s1: "length h1 \<le> s" and s2: "s < length h2" by simp_all
  from render_frame_of_length[OF source] d1 have d2: "d < length h2" by simp
  from d1 s1 have ds: "d \<noteq> s" by simp
  let ?h3 = "snd (compose ?t2 (Some d) (Some s) h2)"
  have rf: "render_frame t h = (Some (length h2), ?t2, ?h3)"
    using render_frame_running[OF run dest source] compose_dest[OF nc, of d "Some s" h2] by simp
  have h3: "?h3 = frame_alpha d (progress ?t2)
                    (set_volume (Some s) (256 - progress_volume ?t2)
                       (set_volume (Some d) (progress_volume ?t2) h2))
                  @ [gpu_composite_frame\<lparr>frames := [s, d]\<rparr>]"
    using compose_dest[OF nc, of d "Some s" h2] mix inf by (simp add: compose_attributes_def)
  have a: "alpha (?h3 ! d) = progress ?t2"
    unfolding h3 using d2 by (simp add: nth_append frame_alpha_def del: set_volume.simps)
  have ad: "audio_data (?h3 ! d) = map (\<lambda>x. scale_sample x (progress_volume ?t2)) (audio_data (h2 ! d))"
    unfolding h3 using d2 ds
    by (simp add: nth_append frame_alpha_def nth_set_volume del: set_volume.simps)
  have as: "audio_data (?h3 ! s) = map (\<lambda>x. scale_sample x (256 - progress_volume ?t2)) (audio_data (h2 ! s))"
    unfolding h3 using s2 ds
    by (simp add: nth_append frame_alpha_def nth_set_volume nth_list_update del: set_volume.simps)
  from rf a ad as show ?thesis
    unfolding pr pv by blast
qed

theorem mix_progress_witness:
  "type (info (example_transition mix 10)) = mix \<and>
   current_frame (example_transition mix 10) = 0 \<and>
   (1 :: nat) < unat (duration (info (example_transition mix 10))) \<and>
   fst (render_frames 1 (example_transition mix 10) []) = [Some 2] \<and>
   alpha (snd (snd (render_frames 2 (example_transition mix 10) [])) ! 3) = 2 / 10 \<and>
   audio_data (snd (snd (render_frames 2 (example_transition mix 10) [])) ! 3) = [scale_sample 10000 51] \<and>
   audio_data (snd (snd (render_frames 2 (example_transition mix 10) [])) ! 4) = [scale_sample 10000 205]"
proof -
  let ?ex = "example_transition mix 10"
  let ?t = "fst (snd (render_frames 1 ?ex []))"
  let ?h = "snd (snd (render_frames 1 ?ex []))"
  let ?dest = "render_frame_of (factory ?t) (dest_producer ?t) ?h"
  let ?source = "render_frame_of (factory ?t) (source_producer ?t) (snd (snd ?dest))"
  have mix: "type (info ?ex) = mix" by (simp add: example_transition_def)
  have zero: "current_frame ?ex = 0" by (simp add: example_transition_def)
  have k: "(1 :: nat) < unat (duration (info ?ex))" by (simp add: example_transition_def)
  have calls: "render_frames 1 ?ex [] = (fst (render_frames 1 ?ex []), ?t, ?h)" by simp
  have "fst ?dest = Some 3" by code_simp
  then have dest: "?dest = (Some 3, fst (snd ?dest), snd (snd ?dest))"
    by (simp add: prod_eq_iff)
  have "fst ?source = Some 4" by code_simp
  then have source: "?source = (Some 4, fst (snd ?source), snd (snd ?source))"
    by (simp add: prod_eq_iff)
  have old: "audio_data (snd (snd ?source) ! 3) = [10000] \<and> audio_data (snd (snd ?source) ! 4) = [10000]"
    by code_simp
  have two: "render_frames 2 ?ex [] =
       (fst (render_frames 1 ?ex []) @ [fst (render_frame ?t ?h)],
        fst (snd (render_frame ?t ?h)), snd (snd (render_frame ?t ?h)))"
    by (simp add: numeral_2_eq_2 split: prod.splits)
  have first: "fst (render_frames 1 ?ex []) = [Some 2]" by code_simp
  from mix_progress [OF mix zero calls k dest source] old
  have "alpha (snd (snd (render_frame ?t ?h)) ! 3) = 2 / 10 \<and>
        audio_data (snd (snd (render_frame ?t ?h)) ! 3) = [scale_sample 10000 51] \<and>
        audio_data (snd (snd (render_frame ?t ?h)) ! 4) = [scale_sample 10000 205]"
    by (auto simp: example_transition_def)
  with mix zero k first two show ?thesis by simp
qed

section \<open>Slide\<close>

text \<open>
  Claim C6, as the spec states it: on the k-th render_frame call of a slide from the
  left the dest frame's translation is (-1 + k/D, 0). At k = 0 and D = 10 that would
  be (-1, 0); the code sets (-9/10, 0), from the counter after its increment. Frame 0
  is the dest's.
\<close>

theorem slide_from_left_progress_counterexample:
  "fst (render_frame (example_transition slide 10) []) = Some 2 \<and>
   translate (snd (snd (render_frame (example_transition slide 10) [])) ! 0) = (- 9 / 10, 0) \<and>
   translate (snd (snd (render_frame (example_transition slide 10) [])) ! 0) \<noteq> (- 1 + 0 / 10, 0)"
  by code_simp

text \<open>
  Claim C6, amended: for a slide transition with direction from_left and duration D,
  on the k-th render_frame call (0-indexed, 0 <= k < D) on which both children return
  a frame, the dest frame's translation is set to (-1 + (k+1)/D, 0) and the source
  frame's translation is left as the source child supplied it ((0,0) by default).
\<close>

theorem slide_from_left_progress:
  assumes slide: "type (info t0) = slide" and left: "direction (info t0) = from_left"
    and zero: "current_frame t0 = 0"
    and calls: "render_frames k t0 h0 = (rs, t, h)"
    and k: "k < unat (duration (info t0))"
    and dest: "render_frame_of (factory t) (dest_producer t) h = (Some d, dp, h1)"
    and source: "render_frame_of (factory t) (source_producer t) h1 = (Some s, sp, h2)"
  shows "\<exists>c t' h3. render_frame t h = (Some c, t', h3) \<and>
           translate (h3 ! d) = (-1 + of_nat (k + 1) / of_nat (unat (duration (info t0))), 0) \<and>
           translate (h3 ! s) = translate (h2 ! s)"
proof -
  let ?D = "duration (info t0)"
  from render_frames_counter[OF calls] zero
  have cf: "current_frame t = of_nat k" and inf: "info t = info t0" by simp_all
  have "unat ?D < 2 ^ LENGTH(16)" by (rule unsigned_less)
  with k have kk: "unat (of_nat k :: 16 word) = k" by (simp add: unat_of_nat)
  with k cf inf have run: "current_frame t < duration (info t)"
    by (simp add: word_less_nat_alt)
  have nc: "type (info t) \<noteq> cut_type" using slide inf by simp
  from children_frames[OF dest source] have d2: "d < length h2" and s2: "s < length h2" and ds: "d \<noteq> s"
    by simp_all
  note rf = render_frame_composite[OF nc run dest source]
  have ca: "compose_attributes (info t) a d (Some s) g = frame_translate d (-1 + a) 0 g" for a g
    using slide left inf by (simp add: compose_attributes_def)
  have td: "translate (snd (snd (render_frame t h)) ! d) = (-1 + of_nat (k + 1) / of_nat (unat ?D), 0)"
    unfolding rf ca using d2 cf kk inf
    by (simp add: nth_append frame_translate_def del: set_volume.simps)
  have ts: "translate (snd (snd (render_frame t h)) ! s) = translate (h2 ! s)"
    unfolding rf ca using s2 d2 ds
    by (simp add: nth_append frame_translate_def nth_set_volume del: set_volume.simps)
  from rf td ts show ?thesis by simp
qed

theorem slide_from_left_progress_witness:
  "type (info (example_transition slide 10)) = slide \<and>
   direction (info (example_transition slide 10)) = from_left \<and>
   current_frame (example_transition slide 10) = 0 \<and>
   (0 :: nat) < unat (duration (info (example_transition slide 10))) \<and>
   translate (snd (snd (render_frame (example_transition slide 10) [])) ! 0) = (- 1 + 1 / 10, 0) \<and>
   translate (snd (snd (render_frame (example_transition slide 10) [])) ! 1) = (0, 0)"
proof -
  let ?ex = "example_transition slide 10"
  let ?dest = "render_frame_of (factory ?ex) (dest_producer ?ex) []"
  let ?source = "render_frame_of (factory ?ex) (source_producer ?ex) (snd (snd ?dest))"
  have slide: "type (info ?ex) = slide" by (simp add: example_transition_def)
  have left: "direction (info ?ex) = from_left" by (simp add: example_transition_def)
  have zero: "current_frame ?ex = 0" by (simp add: example_transition_def)
  have k: "(0 :: nat) < unat (duration (info ?ex))" by (simp add: example_transition_def)
  have calls: "render_frames 0 ?ex [] = ([], ?ex, [])" by simp
  have "fst ?dest = Some 0" by code_simp
  then have dest: "?dest = (Some 0, fst (snd ?dest), snd (snd ?dest))"
    by (simp add: prod_eq_iff)
  have "fst ?source = Some 1" by code_simp
  then have source: "?source = (Some 1, fst (snd ?source), snd (snd ?source))"
    by (simp add: prod_eq_iff)
  have old: "translate (snd (snd ?source) ! 1) = (0, 0)" by code_simp
  from slide_from_left_progress [OF slide left zero calls k dest source] old
  have "translate (snd (snd (render_frame ?ex [])) ! 0) = (- 1 + 1 / 10, 0) \<and>
        translate (snd (snd (render_frame ?ex [])) ! 1) = (0, 0)"
    by (auto simp: example_transition_def)
  with slide left zero k show ?thesis by simp
qed

section \<open>The order of the composite\<close>

text \<open>
  Claim C9: for every render_frame call of a transition that is not a cut, before
  exhaustion: if the dest child yields no frame the call returns absent; if the dest
  frame is present and the source frame is absent the result is a composite that
  contains only the dest frame; if both are present the result is a composite with
  the source frame first (back) and the dest frame second (front).
\<close>

theorem composite_order:
  assumes nc: "type (info t) \<noteq> cut_type"
    and run: "current_frame t < duration (info t)"
    and dest: "render_frame_of (factory t) (dest_producer t) h = (dest, dp, h1)"
    and source: "render_frame_of (factory t) (source_producer t) h1 = (source, sp, h2)"
  shows "(dest = None \<longrightarrow> fst (render_frame t h) = None) \<and>
         (\<forall>d. dest = Some d \<and> source = None \<longrightarrow>
            (\<exists>c t' h3. render_frame t h = (Some c, t', h3) \<and> frames (h3 ! c) = [d])) \<and>
         (\<forall>d s. dest = Some d \<and> source = Some s \<longrightarrow>
            (\<exists>c t' h3. render_frame t h = (Some c, t', h3) \<and> frames (h3 ! c) = [s, d]))"
proof (intro conjI allI impI)
  assume "dest = None"
  with render_frame_running[OF run dest source] nc show "fst (render_frame t h) = None"
    by (simp add: compose_no_dest)
next
  fix d assume a: "dest = Some d \<and> source = None"
  with dest have "render_frame_of (factory t) (dest_producer t) h = (Some d, dp, h1)" by simp
  from render_frame_composite[OF nc run this source] a
  show "\<exists>c t' h3. render_frame t h = (Some c, t', h3) \<and> frames (h3 ! c) = [d]"
    by (simp add: nth_append gpu_composite_frame_def)
next
  fix d s assume a: "dest = Some d \<and> source = Some s"
  with dest have "render_frame_of (factory t) (dest_producer t) h = (Some d, dp, h1)" by simp
  from render_frame_composite[OF nc run this source] a
  show "\<exists>c t' h3. render_frame t h = (Some c, t', h3) \<and> frames (h3 ! c) = [s, d]"
    by (simp add: nth_append gpu_composite_frame_def del: set_volume.simps)
qed

theorem composite_order_witness:
  "fst (render_frame ((example_transition mix 10)\<lparr>dest_producer := Some (example_producer 0)\<rparr>) []) = None \<and>
   frames (snd (snd (render_frame ((example_transition mix 10)\<lparr>source_producer := None\<rparr>) [])) ! 1) = [0] \<and>
   frames (snd (snd (render_frame (example_transition mix 10) [])) ! 2) = [1, 0]"
proof -
  let ?a = "(example_transition mix 10)\<lparr>dest_producer := Some (example_producer 0)\<rparr>"
  let ?b = "(example_transition mix 10)\<lparr>source_producer := None\<rparr>"
  let ?c = "example_transition mix 10"
  let ?da = "render_frame_of (factory ?a) (dest_producer ?a) []"
  let ?sa = "render_frame_of (factory ?a) (source_producer ?a) (snd (snd ?da))"
  let ?db = "render_frame_of (factory ?b) (dest_producer ?b) []"
  let ?sb = "render_frame_of (factory ?b) (source_producer ?b) (snd (snd ?db))"
  let ?dc = "render_frame_of (factory ?c) (dest_producer ?c) []"
  let ?sc = "render_frame_of (factory ?c) (source_producer ?c) (snd (snd ?dc))"
  have nc: "type (info ?a) \<noteq> cut_type" "type (info ?b) \<noteq> cut_type" "type (info ?c) \<noteq> cut_type"
    by (simp_all add: example_transition_def)
  have run: "current_frame ?a < duration (info ?a)" "current_frame ?b < duration (info ?b)"
      "current_frame ?c < duration (info ?c)"
    by (simp_all add: example_transition_def)
  have da: "?da = (None, fst (snd ?da), snd (snd ?da))"
  proof -
    have "fst ?da = None" by code_simp
    then show ?thesis by (simp add: prod_eq_iff)
  qed
  have sa: "?sa = (fst ?sa, fst (snd ?sa), snd (snd ?sa))" by simp
  have db: "?db = (Some 0, fst (snd ?db), snd (snd ?db))"
  proof -
    have "fst ?db = Some 0" by code_simp
    then show ?thesis by (simp add: prod_eq_iff)
  qed
  have sb: "?sb = (None, fst (snd ?sb), snd (snd ?sb))"
  proof -
    have "fst ?sb = None" by code_simp
    then show ?thesis by (simp add: prod_eq_iff)
  qed
  have dc: "?dc = (Some 0, fst (snd ?dc), snd (snd ?dc))"
  proof -
    have "fst ?dc = Some 0" by code_simp
    then show ?thesis by (simp add: prod_eq_iff)
  qed
  have sc: "?sc = (Some 1, fst (snd ?sc), snd (snd ?sc))"
  proof -
    have "fst ?sc = Some 1" by code_simp
    then show ?thesis by (simp add: prod_eq_iff)
  qed
  have rb: "fst (render_frame ?b []) = Some 1" by code_simp
  have rc: "fst (render_frame ?c []) = Some 2" by code_simp
  from composite_order [OF nc(1) run(1) da sa]
  have 1: "fst (render_frame ?a []) = None" by simp
  from composite_order [OF nc(2) run(2) db sb] rb
  have 2: "frames (snd (snd (render_frame ?b [])) ! 1) = [0]" by auto
  from composite_order [OF nc(3) run(3) dc sc] rc
  have 3: "frames (snd (snd (render_frame ?c [])) ! 2) = [1, 0]" by auto
  from 1 2 3 show ?thesis by simp
qed

section \<open>Exhaustion\<close>

text \<open>
  Claim C4: for every transition producer with duration D >= 1 whose children always
  return frames, each of the first D render_frame calls returns a frame (so at most D
  frames are emitted before exhaustion) and the (D+1)-th render_frame call returns the
  exhausted sentinel. The calls are those made from construction on, when the counter
  is 0; a child always returns frames when it is present and each of its D calls
  returns one.
\<close>

theorem emits_duration_frames:
  assumes "1 \<le> unat (duration (info t))"
    and "current_frame t = 0"
    and "returns_frames (unat (duration (info t))) (dest_producer t)"
    and "returns_frames (unat (duration (info t))) (source_producer t)"
  shows "\<exists>cs. length cs = unat (duration (info t)) \<and>
           fst (render_frames (Suc (unat (duration (info t)))) t h) = map Some cs @ [None]"
  using assms render_frames_then_exhausted [of t h] by simp

theorem emits_duration_frames_witness:
  "1 \<le> unat (duration (info (example_transition mix 2))) \<and>
   current_frame (example_transition mix 2) = 0 \<and>
   returns_frames 2 (dest_producer (example_transition mix 2)) \<and>
   returns_frames 2 (source_producer (example_transition mix 2)) \<and>
   (\<exists>cs. length cs = 2 \<and>
      fst (render_frames 3 (example_transition mix 2) []) = map Some cs @ [None]) \<and>
   fst (render_frames 3 (example_transition mix 2) []) = [Some 2, Some 5, None]"
proof -
  let ?ex = "example_transition mix 2"
  have D: "unat (duration (info ?ex)) = 2" by (simp add: example_transition_def)
  have 1: "1 \<le> unat (duration (info ?ex))" by (simp add: example_transition_def)
  have 2: "current_frame ?ex = 0" by (simp add: example_transition_def)
  have 3: "returns_frames 2 (dest_producer ?ex)" by code_simp
  have 4: "returns_frames 2 (source_producer ?ex)" by code_simp
  have 5: "fst (render_frames 3 ?ex []) = [Some 2, Some 5, None]" by code_simp
  have 6: "\<exists>cs. length cs = 2 \<and> fst (render_frames (Suc 2) ?ex []) = map Some cs @ [None]"
    using emits_duration_frames [of ?ex "[]"] 1 2 3 4 unfolding D by blast
  have 7: "Suc 2 = 3" by simp
  from 6 have 8: "\<exists>cs. length cs = 2 \<and> fst (render_frames 3 ?ex []) = map Some cs @ [None]"
    unfolding 7 .
  from 1 2 3 4 5 8 show ?thesis by blast
qed

text \<open>
  Claim C3: once current_frame exceeds duration, every subsequent render_frame call
  (with no bound on how many) returns the exhausted sentinel. The code increments its
  16-bit counter on every call, exhausted or not, so the counter comes back to 0: with
  duration 1 the first call returns a frame, after the second call the counter is 2,
  the calls up to the 65536th return exhaustion, and the 65537th returns a frame again.
\<close>

theorem exhaustion_wraps:
  "duration (info (example_transition mix 1)) = 1 \<and>
   current_frame (fst (snd (render_frames 2 (example_transition mix 1) []))) = 2 \<and>
   fst (render_frames 65537 (example_transition mix 1) [])
     = [Some 2] @ replicate 65535 None @ [Some 5]"
proof -
  let ?ex = "example_transition mix 1"
  let ?t1 = "fst (snd (render_frames 1 ?ex []))"
  let ?h1 = "snd (snd (render_frames 1 ?ex []))"
  have D: "duration (info ?ex) = 1" by (simp add: example_transition_def)
  have two: "current_frame (fst (snd (render_frames 2 ?ex []))) = 2" by code_simp
  have f1: "fst (render_frames 1 ?ex []) = [Some 2]" by code_simp
  have first: "render_frames 1 ?ex [] = ([Some 2], ?t1, ?h1)"
    using f1 by (simp add: prod_eq_iff)
  have c1: "current_frame ?t1 = 1" and i1: "info ?t1 = info ?ex"
    using render_frames_counter[OF first] by (simp_all add: example_transition_def)
  have b: "unat (current_frame ?t1) + 65535 \<le> 2 ^ 16" unfolding c1 by simp
  have e: "0 < (65535 :: nat) \<longrightarrow> duration (info ?t1) \<le> current_frame ?t1"
    unfolding c1 i1 D by simp
  have wrap: "current_frame ?t1 + of_nat 65535 = 0" unfolding c1 by simp
  have mid: "render_frames 65535 ?t1 ?h1 = (replicate 65535 None, ?t1\<lparr>current_frame := 0\<rparr>, ?h1)"
    using render_frames_exhausted[OF b e, of ?h1] unfolding wrap .
  have last: "fst (render_frames 1 (?t1\<lparr>current_frame := 0\<rparr>) ?h1) = [Some 5]" by code_simp
  have n: "(65537 :: nat) = 1 + (65535 + 1)" by simp
  have "fst (render_frames (1 + (65535 + 1)) ?ex []) =
          fst (render_frames 1 ?ex []) @ fst (render_frames (65535 + 1) ?t1 ?h1)"
    by (rule fst_render_frames_add)
  also have "fst (render_frames (65535 + 1) ?t1 ?h1) =
          fst (render_frames 65535 ?t1 ?h1) @
          fst (render_frames 1 (fst (snd (render_frames 65535 ?t1 ?h1)))
                 (snd (snd (render_frames 65535 ?t1 ?h1))))"
    by (rule fst_render_frames_add)
  also have "\<dots> = replicate 65535 None @ [Some 5]"
    unfolding mid fst_conv snd_conv last ..
  finally have "fst (render_frames (1 + (65535 + 1)) ?ex []) = [Some 2] @ replicate 65535 None @ [Some 5]"
    unfolding f1 .
  then have "fst (render_frames 65537 ?ex []) = [Some 2] @ replicate 65535 None @ [Some 5]"
    unfolding n .
  with D two show ?thesis by blast
qed

section \<open>Cut\<close>

text \<open>
  Claim C5, as the spec states it: a cut of any duration D >= 1 emits exactly one
  frame and then exhausts. A cut with duration 2 whose source keeps returning frames
  emits two (the source's frames 1 and 3 below), and exhausts on the third call.
\<close>

theorem cut_two_frames_counterexample:
  "duration (info (example_transition cut_type 2)) = 2 \<and>
   fst (render_frames 3 (example_transition cut_type 2) []) = [Some 1, Some 3, None]"
  by code_simp

text \<open>
  Claim C5, amended: for every cut transition with duration D >= 1, each render_frame
  call before exhaustion (counter below D) returns what the source child returned on
  that call: its frame, unchanged (the dest child is rendered too and its frame
  discarded; no audio scaling is applied and no attribute set: the store is as the
  children left it), or absent if the source yields none. A call with the counter at D
  or above returns exhausted. So a cut whose source keeps returning frames emits D
  frames, one per call, and exhausts on call D+1: exactly one frame when D = 1.
\<close>

theorem cut_returns_source:
  assumes cut: "type (info t) = cut_type"
    and dest: "render_frame_of (factory t) (dest_producer t) h = (dest, dp, h1)"
    and source: "render_frame_of (factory t) (source_producer t) h1 = (source, sp, h2)"
  shows "(current_frame t < duration (info t) \<longrightarrow>
            render_frame t h =
              (source,
               t\<lparr>current_frame := current_frame t + 1, dest_producer := dp, source_producer := sp\<rparr>,
               h2)) \<and>
         (duration (info t) \<le> current_frame t \<longrightarrow> fst (render_frame t h) = None) \<and>
         (current_frame t = 0 \<and> returns_frames (unat (duration (info t))) (source_producer t) \<longrightarrow>
            (\<exists>cs. length cs = unat (duration (info t)) \<and>
               fst (render_frames (Suc (unat (duration (info t)))) t h) = map Some cs @ [None]))"
proof (intro conjI impI)
  assume "current_frame t < duration (info t)"
  from render_frame_running[OF this dest source] cut
  show "render_frame t h =
          (source,
           t\<lparr>current_frame := current_frame t + 1, dest_producer := dp, source_producer := sp\<rparr>, h2)"
    by (simp add: compose_cut)
next
  assume "duration (info t) \<le> current_frame t"
  then show "fst (render_frame t h) = None" by (simp add: render_frame_exhausted)
next
  assume "current_frame t = 0 \<and> returns_frames (unat (duration (info t))) (source_producer t)"
  with cut render_frames_then_exhausted [of t h]
  show "\<exists>cs. length cs = unat (duration (info t)) \<and>
          fst (render_frames (Suc (unat (duration (info t)))) t h) = map Some cs @ [None]"
    by simp
qed

theorem cut_returns_source_witness:
  "type (info (example_transition cut_type 1)) = cut_type \<and>
   current_frame (example_transition cut_type 1) < duration (info (example_transition cut_type 1)) \<and>
   fst (render_frame (example_transition cut_type 1) []) = Some 1 \<and>
   snd (snd (render_frame (example_transition cut_type 1) [])) = [example_frame, example_frame] \<and>
   duration (info (example_transition cut_type 1))
      \<le> current_frame ((example_transition cut_type 1)\<lparr>current_frame := 1\<rparr>) \<and>
   fst (render_frame ((example_transition cut_type 1)\<lparr>current_frame := 1\<rparr>) []) = None \<and>
   returns_frames 1 (source_producer (example_transition cut_type 1)) \<and>
   (\<exists>cs. length cs = 1 \<and>
      fst (render_frames 2 (example_transition cut_type 1) []) = map Some cs @ [None])"
proof -
  let ?ex = "example_transition cut_type 1"
  let ?ex1 = "(example_transition cut_type 1)\<lparr>current_frame := 1\<rparr>"
  let ?dest = "render_frame_of (factory ?ex) (dest_producer ?ex) []"
  let ?source = "render_frame_of (factory ?ex) (source_producer ?ex) (snd (snd ?dest))"
  let ?dest1 = "render_frame_of (factory ?ex1) (dest_producer ?ex1) []"
  let ?source1 = "render_frame_of (factory ?ex1) (source_producer ?ex1) (snd (snd ?dest1))"
  have D: "unat (duration (info ?ex)) = 1" by (simp add: example_transition_def)
  have cut: "type (info ?ex) = cut_type" "type (info ?ex1) = cut_type"
    by (simp_all add: example_transition_def)
  have run: "current_frame ?ex < duration (info ?ex)" by (simp add: example_transition_def)
  have ex: "duration (info ?ex) \<le> current_frame ?ex1" by (simp add: example_transition_def)
  have ex': "duration (info ?ex1) \<le> current_frame ?ex1" by (simp add: example_transition_def)
  have zero: "current_frame ?ex = 0" by (simp add: example_transition_def)
  have fr: "returns_frames 1 (source_producer ?ex)" by code_simp
  have dest: "?dest = (fst ?dest, fst (snd ?dest), snd (snd ?dest))" by simp
  have source: "?source = (Some 1, fst (snd ?source), [example_frame, example_frame])"
  proof -
    have "fst ?source = Some 1 \<and> snd (snd ?source) = [example_frame, example_frame]" by code_simp
    then show ?thesis by (simp add: prod_eq_iff)
  qed
  have dest1: "?dest1 = (fst ?dest1, fst (snd ?dest1), snd (snd ?dest1))" by simp
  have source1: "?source1 = (fst ?source1, fst (snd ?source1), snd (snd ?source1))" by simp
  from cut_returns_source [OF cut(1) dest source] run
  have a: "fst (render_frame ?ex []) = Some 1 \<and>
           snd (snd (render_frame ?ex [])) = [example_frame, example_frame]"
    by simp
  from cut_returns_source [OF cut(2) dest1 source1] ex'
  have b: "fst (render_frame ?ex1 []) = None" by blast
  from cut_returns_source [OF cut(1) dest source] zero fr
  have c: "\<exists>cs. length cs = 1 \<and> fst (render_frames (Suc 1) ?ex []) = map Some cs @ [None]"
    unfolding D by blast
  have s: "Suc 1 = 2" by simp
  from c have c': "\<exists>cs. length cs = 1 \<and> fst (render_frames 2 ?ex []) = map Some cs @ [None]"
    unfolding s .
  from cut(1) run a ex b fr c' show ?thesis by blast
qed

section \<open>Composition writes the frames of the children\<close>

text \<open>
  Claim C7, as the spec states it: compositing is non-mutating; the frames obtained
  from the child producers are not modified, and their alpha, translation, texcoords
  and audio samples are unchanged after the call. In a mix with duration 10 the dest
  child creates the frame at address 0 with alpha 1 and the sample 10000; after the
  call that same frame has alpha 1/10 and the sample 976, the source's frame (address
  1) the sample 9023, and the composite (address 2) refers to these two frames.
\<close>

theorem compose_mutates_counterexample:
  "snd (snd (render_frame_of None (Some (example_producer 3)) [])) = [example_frame] \<and>
   alpha example_frame = 1 \<and> audio_data example_frame = [10000] \<and>
   fst (render_frame (example_transition mix 10) []) = Some 2 \<and>
   frames (snd (snd (render_frame (example_transition mix 10) [])) ! 2) = [1, 0] \<and>
   snd (snd (render_frame (example_transition mix 10) [])) ! 0 \<noteq> example_frame \<and>
   alpha (snd (snd (render_frame (example_transition mix 10) [])) ! 0) = 1 / 10 \<and>
   audio_data (snd (snd (render_frame (example_transition mix 10) [])) ! 0) = [976] \<and>
   audio_data (snd (snd (render_frame (example_transition mix 10) [])) ! 1) = [9023]"
  by code_simp

text \<open>
  Claim C7, amended: for every render_frame call before exhaustion of a transition
  that is not a cut and whose dest child yields a frame, the composited result is a
  new frame, which refers to the two input frames themselves, and the input frames are
  written in place. With a = (current_frame + 1) / duration and v the floor of 256 a:
  the audio samples of the dest frame are scaled by v and those of the source frame by
  256 - v; a mix sets the dest frame's alpha to a; a slide and a push set the dest
  frame's translation to (-1 + a, 0) from the left and (1 - a, 0) from the right, and a
  push also the source frame's to (a, 0) and (-a, 0); a wipe sets the dest frame's
  translation as a slide does and its texcoords to (-1 + a, 1, a, 0) from the left and
  (1 - a, 1, 2 - a, 0) from the right. Nothing else of the two frames changes, and
  every other frame of the store is unchanged. A cut, and a call whose dest child
  yields no frame, modify no frame.
\<close>

theorem compose_in_place:
  assumes run: "current_frame t < duration (info t)"
    and dest: "render_frame_of (factory t) (dest_producer t) h = (dest, dp, h1)"
    and source: "render_frame_of (factory t) (source_producer t) h1 = (source, sp, h2)"
  shows "(type (info t) = cut_type \<or> dest = None \<longrightarrow> snd (snd (render_frame t h)) = h2) \<and>
         (type (info t) \<noteq> cut_type \<longrightarrow>
            (\<forall>d. dest = Some d \<longrightarrow>
               fst (render_frame t h) = Some (length h2) \<and>
               length (snd (snd (render_frame t h))) = Suc (length h2) \<and>
               frames (snd (snd (render_frame t h)) ! length h2) =
                 (case source of None \<Rightarrow> [] | Some s \<Rightarrow> [s]) @ [d] \<and>
               audio_data (snd (snd (render_frame t h)) ! d) =
                 map (\<lambda>x. scale_sample x
                        (int (256 * (unat (current_frame t) + 1) div unat (duration (info t)))))
                   (audio_data (h2 ! d)) \<and>
               (\<forall>s. source = Some s \<longrightarrow>
                  audio_data (snd (snd (render_frame t h)) ! s) =
                    map (\<lambda>x. scale_sample x
                           (256 - int (256 * (unat (current_frame t) + 1) div unat (duration (info t)))))
                      (audio_data (h2 ! s))) \<and>
               (type (info t) = mix \<longrightarrow>
                  alpha (snd (snd (render_frame t h)) ! d) =
                    of_nat (unat (current_frame t) + 1) / of_nat (unat (duration (info t)))) \<and>
               (\<forall>i < length h2. i \<noteq> d \<and> Some i \<noteq> source \<longrightarrow>
                  snd (snd (render_frame t h)) ! i = h2 ! i) \<and>
               (let a = of_nat (unat (current_frame t) + 1) / of_nat (unat (duration (info t)));
                    v = int (256 * (unat (current_frame t) + 1) div unat (duration (info t)));
                    fd = (h2 ! d)\<lparr>audio_data := map (\<lambda>x. scale_sample x v) (audio_data (h2 ! d))\<rparr>;
                    tx = (if direction (info t) = from_left then - 1 + a else 1 - a);
                    tc = (if direction (info t) = from_left
                          then \<lparr>rect_left = - 1 + a, rect_top = 1, rect_right = a, rect_bottom = 0\<rparr>
                          else \<lparr>rect_left = 1 - a, rect_top = 1, rect_right = 2 - a, rect_bottom = 0\<rparr>)
                in snd (snd (render_frame t h)) ! d =
                     (case type (info t) of
                        cut_type \<Rightarrow> h2 ! d
                      | mix \<Rightarrow> fd\<lparr>alpha := a\<rparr>
                      | push \<Rightarrow> fd\<lparr>translate := (tx, 0)\<rparr>
                      | slide \<Rightarrow> fd\<lparr>translate := (tx, 0)\<rparr>
                      | wipe \<Rightarrow> fd\<lparr>translate := (tx, 0), texcoords := tc\<rparr>) \<and>
                   (\<forall>s. source = Some s \<longrightarrow>
                      snd (snd (render_frame t h)) ! s =
                        (let fs = (h2 ! s)\<lparr>audio_data :=
                                     map (\<lambda>x. scale_sample x (256 - v)) (audio_data (h2 ! s))\<rparr>
                         in if type (info t) = push
                            then fs\<lparr>translate := (if direction (info t) = from_left then a else - a, 0)\<rparr>
                            else fs)))))"
proof -
  note old = render_frame_in_place [OF run dest source]
  have new: "type (info t) \<noteq> cut_type \<longrightarrow> (\<forall>d. dest = Some d \<longrightarrow>
               (let a = of_nat (unat (current_frame t) + 1) / of_nat (unat (duration (info t)));
                    v = int (256 * (unat (current_frame t) + 1) div unat (duration (info t)));
                    fd = (h2 ! d)\<lparr>audio_data := map (\<lambda>x. scale_sample x v) (audio_data (h2 ! d))\<rparr>;
                    tx = (if direction (info t) = from_left then - 1 + a else 1 - a);
                    tc = (if direction (info t) = from_left
                          then \<lparr>rect_left = - 1 + a, rect_top = 1, rect_right = a, rect_bottom = 0\<rparr>
                          else \<lparr>rect_left = 1 - a, rect_top = 1, rect_right = 2 - a, rect_bottom = 0\<rparr>)
                in snd (snd (render_frame t h)) ! d =
                     (case type (info t) of
                        cut_type \<Rightarrow> h2 ! d
                      | mix \<Rightarrow> fd\<lparr>alpha := a\<rparr>
                      | push \<Rightarrow> fd\<lparr>translate := (tx, 0)\<rparr>
                      | slide \<Rightarrow> fd\<lparr>translate := (tx, 0)\<rparr>
                      | wipe \<Rightarrow> fd\<lparr>translate := (tx, 0), texcoords := tc\<rparr>) \<and>
                   (\<forall>s. source = Some s \<longrightarrow>
                      snd (snd (render_frame t h)) ! s =
                        (let fs = (h2 ! s)\<lparr>audio_data :=
                                     map (\<lambda>x. scale_sample x (256 - v)) (audio_data (h2 ! s))\<rparr>
                         in if type (info t) = push
                            then fs\<lparr>translate := (if direction (info t) = from_left then a else - a, 0)\<rparr>
                            else fs))))"
  proof (intro impI allI)
    fix d assume nc: "type (info t) \<noteq> cut_type" and d: "dest = Some d"
    from dest d have "render_frame_of (factory t) (dest_producer t) h = (Some d, dp, h1)" by simp
    from render_frame_written_frames [OF nc run this source]
    show "(let a = of_nat (unat (current_frame t) + 1) / of_nat (unat (duration (info t)));
                    v = int (256 * (unat (current_frame t) + 1) div unat (duration (info t)));
                    fd = (h2 ! d)\<lparr>audio_data := map (\<lambda>x. scale_sample x v) (audio_data (h2 ! d))\<rparr>;
                    tx = (if direction (info t) = from_left then - 1 + a else 1 - a);
                    tc = (if direction (info t) = from_left
                          then \<lparr>rect_left = - 1 + a, rect_top = 1, rect_right = a, rect_bottom = 0\<rparr>
                          else \<lparr>rect_left = 1 - a, rect_top = 1, rect_right = 2 - a, rect_bottom = 0\<rparr>)
                in snd (snd (render_frame t h)) ! d =
                     (case type (info t) of
                        cut_type \<Rightarrow> h2 ! d
                      | mix \<Rightarrow> fd\<lparr>alpha := a\<rparr>
                      | push \<Rightarrow> fd\<lparr>translate := (tx, 0)\<rparr>
                      | slide \<Rightarrow> fd\<lparr>translate := (tx, 0)\<rparr>
                      | wipe \<Rightarrow> fd\<lparr>translate := (tx, 0), texcoords := tc\<rparr>) \<and>
                   (\<forall>s. source = Some s \<longrightarrow>
                      snd (snd (render_frame t h)) ! s =
                        (let fs = (h2 ! s)\<lparr>audio_data :=
                                     map (\<lambda>x. scale_sample x (256 - v)) (audio_data (h2 ! s))\<rparr>
                         in if type (info t) = push
                            then fs\<lparr>translate := (if direction (info t) = from_left then a else - a, 0)\<rparr>
                            else fs)))" .
  qed
  from old new show ?thesis by blast
qed

theorem compose_in_place_witness:
  "current_frame (example_transition mix 10) < duration (info (example_transition mix 10)) \<and>
   type (info (example_transition mix 10)) \<noteq> cut_type \<and>
   fst (render_frame (example_transition mix 10) []) = Some 2 \<and>
   length (snd (snd (render_frame (example_transition mix 10) []))) = 3 \<and>
   frames (snd (snd (render_frame (example_transition mix 10) [])) ! 2) = [1, 0] \<and>
   audio_data (snd (snd (render_frame (example_transition mix 10) [])) ! 0) = [scale_sample 10000 25] \<and>
   audio_data (snd (snd (render_frame (example_transition mix 10) [])) ! 1) = [scale_sample 10000 231] \<and>
   alpha (snd (snd (render_frame (example_transition mix 10) [])) ! 0) = 1 / 10 \<and>
   type (info (example_transition cut_type 10)) = cut_type \<and>
   snd (snd (render_frame (example_transition cut_type 10) [])) = [example_frame, example_frame] \<and>
   snd (snd (render_frame (example_transition push 10) [])) ! 0
     = example_frame\<lparr>audio_data := [scale_sample 10000 25], translate := (- 1 + 1 / 10, 0)\<rparr> \<and>
   snd (snd (render_frame (example_transition push 10) [])) ! 1
     = example_frame\<lparr>audio_data := [scale_sample 10000 231], translate := (1 / 10, 0)\<rparr> \<and>
   snd (snd (render_frame (example_transition wipe 10) [])) ! 0
     = example_frame\<lparr>audio_data := [scale_sample 10000 25], translate := (- 1 + 1 / 10, 0),
         texcoords := \<lparr>rect_left = - 1 + 1 / 10, rect_top = 1, rect_right = 1 / 10, rect_bottom = 0\<rparr>\<rparr> \<and>
   snd (snd (render_frame (example_transition wipe 10) [])) ! 1
     = example_frame\<lparr>audio_data := [scale_sample 10000 231]\<rparr>"
proof -
  let ?ex = "example_transition mix 10"
  let ?cx = "example_transition cut_type 10"
  let ?cdest = "render_frame_of (factory ?cx) (dest_producer ?cx) []"
  let ?csource = "render_frame_of (factory ?cx) (source_producer ?cx) (snd (snd ?cdest))"
  have crun: "current_frame ?cx < duration (info ?cx)" by (simp add: example_transition_def)
  have cut: "type (info ?cx) = cut_type" by (simp add: example_transition_def)
  have run: "current_frame (example_transition ty 10) < duration (info (example_transition ty 10))" for ty
    by (simp add: example_transition_def)
  have ty: "type (info (example_transition ty 10)) = ty"
    and dir: "direction (info (example_transition ty 10)) = from_left"
    and cf: "unat (current_frame (example_transition ty 10)) = 0"
    and D: "unat (duration (info (example_transition ty 10))) = 10" for ty
    by (simp_all add: example_transition_def)
  have ch: "factory (example_transition ty 10) = None"
    "dest_producer (example_transition ty 10) = Some (example_producer 3)"
    "source_producer (example_transition ty 10) = Some (example_producer 3)" for ty
    by (simp_all add: example_transition_def)
  let ?dest = "render_frame_of None (Some (example_producer 3)) []"
  let ?source = "render_frame_of None (Some (example_producer 3)) (snd (snd ?dest))"
  have dest0: "?dest = (Some 0, fst (snd ?dest), snd (snd ?dest))"
  proof -
    have "fst ?dest = Some 0" by code_simp
    then show ?thesis by (simp add: prod_eq_iff)
  qed
  have source0: "?source = (Some 1, fst (snd ?source), [example_frame, example_frame])"
  proof -
    have "fst ?source = Some 1 \<and> snd (snd ?source) = [example_frame, example_frame]" by code_simp
    then show ?thesis by (simp add: prod_eq_iff)
  qed
  have dest: "render_frame_of (factory (example_transition ty 10)) (dest_producer (example_transition ty 10)) []
                = (Some 0, fst (snd ?dest), snd (snd ?dest))" for ty
    unfolding ch by (rule dest0)
  have source: "render_frame_of (factory (example_transition ty 10))
                  (source_producer (example_transition ty 10)) (snd (snd ?dest))
                = (Some 1, fst (snd ?source), [example_frame, example_frame])" for ty
    unfolding ch by (rule source0)
  have v: "int (256 * (0 + 1) div 10) = 25" by simp
  have ef: "audio_data example_frame = [10000]" by (simp add: example_frame_def)
  note inst = compose_in_place [OF run dest source, unfolded ty dir cf D v]
  from inst [of mix]
  have a: "fst (render_frame ?ex []) = Some 2 \<and>
           length (snd (snd (render_frame ?ex []))) = 3 \<and>
           frames (snd (snd (render_frame ?ex [])) ! 2) = [1, 0] \<and>
           audio_data (snd (snd (render_frame ?ex [])) ! 0) = [scale_sample 10000 25] \<and>
           audio_data (snd (snd (render_frame ?ex [])) ! 1) = [scale_sample 10000 231] \<and>
           alpha (snd (snd (render_frame ?ex [])) ! 0) = 1 / 10"
    by (simp add: ef numeral_2_eq_2 numeral_3_eq_3)
  have cdest: "?cdest = (fst ?cdest, fst (snd ?cdest), snd (snd ?cdest))" by simp
  have csource: "?csource = (fst ?csource, fst (snd ?csource), [example_frame, example_frame])"
  proof -
    have "snd (snd ?csource) = [example_frame, example_frame]" by code_simp
    then show ?thesis by (simp add: prod_eq_iff)
  qed
  from compose_in_place [OF crun cdest csource] cut
  have b: "snd (snd (render_frame ?cx [])) = [example_frame, example_frame]" by blast
  from inst [of push]
  have p: "snd (snd (render_frame (example_transition push 10) [])) ! 0
             = example_frame\<lparr>audio_data := [scale_sample 10000 25], translate := (- 1 + 1 / 10, 0)\<rparr> \<and>
           snd (snd (render_frame (example_transition push 10) [])) ! 1
             = example_frame\<lparr>audio_data := [scale_sample 10000 231], translate := (1 / 10, 0)\<rparr>"
    by (simp add: ef Let_def)
  from inst [of wipe]
  have w: "snd (snd (render_frame (example_transition wipe 10) [])) ! 0
             = example_frame\<lparr>audio_data := [scale_sample 10000 25], translate := (- 1 + 1 / 10, 0),
                 texcoords := \<lparr>rect_left = - 1 + 1 / 10, rect_top = 1, rect_right = 1 / 10, rect_bottom = 0\<rparr>\<rparr> \<and>
           snd (snd (render_frame (example_transition wipe 10) [])) ! 1
             = example_frame\<lparr>audio_data := [scale_sample 10000 231]\<rparr>"
    by (simp add: ef Let_def)
  have nc: "type (info ?ex) \<noteq> cut_type" by (simp add: ty)
  from run [of mix] nc a cut b p w show ?thesis by blast
qed

section \<open>A child that throws\<close>

text \<open>
  Claim C8, as the spec states it: if a child producer's render_frame raises, the
  transition continues compositing the remaining child for the rest of its duration.
  When the child that raises is the dest of a mix, nothing is composited any more: the
  source child goes on rendering its frames (two are in the store after two calls, and
  a single one is left in the source) and both calls return absent.
\<close>

theorem child_failure_counterexample:
  "fst (render_frames 2
          ((example_transition mix 10)\<lparr>dest_producer := Some (Producer [Throws] None None None)\<rparr>) [])
     = [None, None] \<and>
   snd (snd (render_frames 2
          ((example_transition mix 10)\<lparr>dest_producer := Some (Producer [Throws] None None None)\<rparr>) []))
     = [example_frame, example_frame] \<and>
   source_producer (fst (snd (render_frames 2
          ((example_transition mix 10)\<lparr>dest_producer := Some (Producer [Throws] None None None)\<rparr>) [])))
     = Some (example_producer 1)"
  by code_simp

text \<open>
  Claim C8, amended: for every render_frame call before exhaustion, if the
  render_frame of a child producer raises (of the child itself, or of a following
  producer substituted for it in the same call), the failure is not propagated to the
  caller (the call returns, and the counter advances by one on this and on every later
  call): that child is set to absent and stays absent on all subsequent render_frame
  calls, and each tick treats that side as producing no frame. When the child is the
  source, a transition that is not a cut returns, on this and on every later call
  before exhaustion, a composite of the dest frame alone (absent if the dest yields
  none), and a cut returns absent. When the child is the dest, a transition that is
  not a cut returns absent on this and on every later call, the source's frames not
  being composited, and a cut returns on every call before exhaustion what the source
  yields.
\<close>

theorem child_failure_absorbed:
  assumes run: "current_frame t < duration (info t)"
    and dest: "render_frame_of (factory t) (dest_producer t) h = (dest, dp, h1)"
    and source: "render_frame_of (factory t) (source_producer t) h1 = (source, sp, h2)"
  shows "current_frame (fst (snd (render_frame t h))) = current_frame t + 1 \<and>
    (\<forall>fac p g e p' g'. producer_render_frame p g = (Inl e, p', g') \<longrightarrow>
       child_throws fac (Some p) g) \<and>
    (\<forall>fac p g p' g' fo.
       producer_render_frame p g = (Inr None, p', g') \<and>
       producer_get_following_producer p' = Some fo \<longrightarrow>
       child_throws fac (Some p) g =
         child_throws fac (Some (Producer (script fo) (following fo) (Some p') fac)) g') \<and>
    (child_throws (factory t) (dest_producer t) h \<longrightarrow>
       dest = None \<and>
       dest_producer (fst (snd (render_frame t h))) = None \<and>
       fst (render_frame t h) = (if type (info t) = cut_type then source else None) \<and>
       (\<forall>m. let tm = fst (snd (render_frames (Suc m) t h));
                hm = snd (snd (render_frames (Suc m) t h))
            in dest_producer tm = None \<and>
               current_frame tm = current_frame t + 1 + of_nat m \<and>
               (type (info t) \<noteq> cut_type \<longrightarrow>
                  fst (render_frames (Suc m) t h) = replicate (Suc m) None \<and>
                  fst (render_frame tm hm) = None) \<and>
               (type (info t) = cut_type \<longrightarrow>
                  fst (render_frame tm hm) =
                    (if current_frame tm < duration (info t)
                     then fst (render_frame_of (factory t) (source_producer tm) hm)
                     else None)))) \<and>
    (child_throws (factory t) (source_producer t) h1 \<longrightarrow>
       source = None \<and>
       source_producer (fst (snd (render_frame t h))) = None \<and>
       (type (info t) = cut_type \<or> dest = None \<longrightarrow> fst (render_frame t h) = None) \<and>
       (type (info t) \<noteq> cut_type \<longrightarrow>
          (\<forall>d. dest = Some d \<longrightarrow>
             (\<exists>c. fst (render_frame t h) = Some c \<and>
                  frames (snd (snd (render_frame t h)) ! c) = [d]))) \<and>
       (\<forall>m. let tm = fst (snd (render_frames (Suc m) t h));
                hm = snd (snd (render_frames (Suc m) t h))
            in source_producer tm = None \<and>
               current_frame tm = current_frame t + 1 + of_nat m \<and>
               (type (info t) = cut_type \<longrightarrow> fst (render_frame tm hm) = None) \<and>
               (type (info t) \<noteq> cut_type \<and> current_frame tm < duration (info t) \<longrightarrow>
                  (\<forall>d dp' g.
                     render_frame_of (factory t) (dest_producer tm) hm = (Some d, dp', g) \<longrightarrow>
                     (\<exists>c. fst (render_frame tm hm) = Some c \<and>
                          frames (snd (snd (render_frame tm hm)) ! c) = [d]))) \<and>
               (type (info t) \<noteq> cut_type \<and>
                fst (render_frame_of (factory t) (dest_producer tm) hm) = None \<longrightarrow>
                  fst (render_frame tm hm) = None)))"
proof -
  let ?t2 = "t\<lparr>current_frame := current_frame t + 1, dest_producer := dp, source_producer := sp\<rparr>"
  let ?t' = "fst (snd (render_frame t h))"
  let ?h' = "snd (snd (render_frame t h))"
  note rf = render_frame_running[OF run dest source]
  have t': "?t' = ?t2" unfolding rf by simp
  have later: "info (fst (snd (render_frames (Suc m) t h))) = info t \<and>
               factory (fst (snd (render_frames (Suc m) t h))) = factory t \<and>
               current_frame (fst (snd (render_frames (Suc m) t h))) = current_frame t + 1 + of_nat m"
    for m
    using render_frames_counter [of "Suc m" t h "fst (render_frames (Suc m) t h)"
        "fst (snd (render_frames (Suc m) t h))" "snd (snd (render_frames (Suc m) t h))"]
    by (simp add: algebra_simps del: render_frames.simps)
  have A: "current_frame ?t' = current_frame t + 1" unfolding t' by simp
  have D: "\<forall>fac p g e p' g'. producer_render_frame p g = (Inl e, p', g') \<longrightarrow>
             child_throws fac (Some p) g"
    by simp
  have E: "\<forall>fac p g p' g' fo.
       producer_render_frame p g = (Inr None, p', g') \<and>
       producer_get_following_producer p' = Some fo \<longrightarrow>
       child_throws fac (Some p) g =
         child_throws fac (Some (Producer (script fo) (following fo) (Some p') fac)) g'"
    using child_throws_advance by blast
  have B: "dest = None \<and> dest_producer ?t' = None \<and>
       fst (render_frame t h) = (if type (info t) = cut_type then source else None) \<and>
       (\<forall>m. let tm = fst (snd (render_frames (Suc m) t h));
                hm = snd (snd (render_frames (Suc m) t h))
            in dest_producer tm = None \<and>
               current_frame tm = current_frame t + 1 + of_nat m \<and>
               (type (info t) \<noteq> cut_type \<longrightarrow>
                  fst (render_frames (Suc m) t h) = replicate (Suc m) None \<and>
                  fst (render_frame tm hm) = None) \<and>
               (type (info t) = cut_type \<longrightarrow>
                  fst (render_frame tm hm) =
                    (if current_frame tm < duration (info t)
                     then fst (render_frame_of (factory t) (source_producer tm) hm)
                     else None)))"
    if th: "child_throws (factory t) (dest_producer t) h"
  proof -
    from child_throws_removed[OF th dest] have d: "dest = None" "dp = None" by simp_all
    then have da: "dest_producer ?t' = None" unfolding t' by simp
    have r: "fst (render_frame t h) = (if type (info t) = cut_type then source else None)"
      unfolding rf using d by (simp add: compose_cut compose_no_dest)
    have i: "info ?t' = info t" unfolding t' by simp
    { fix m
      let ?tm = "fst (snd (render_frames (Suc m) t h))"
      let ?hm = "snd (snd (render_frames (Suc m) t h))"
      from render_frames_dest_absent[OF da, of m ?h'] i
      have dm: "dest_producer ?tm = None"
        and rm: "type (info t) \<noteq> cut_type \<Longrightarrow> fst (render_frames m ?t' ?h') = replicate m None"
        by (simp_all add: render_frames_Suc_state del: render_frames.simps)
      have res: "type (info t) \<noteq> cut_type \<Longrightarrow> fst (render_frames (Suc m) t h) = replicate (Suc m) None"
        using rm r by (simp add: render_frames_Suc_state(1) del: render_frames.simps)
      note wd = render_frame_without_dest[OF dm, of ?hm]
      have "dest_producer ?tm = None \<and>
            current_frame ?tm = current_frame t + 1 + of_nat m \<and>
            (type (info t) \<noteq> cut_type \<longrightarrow>
               fst (render_frames (Suc m) t h) = replicate (Suc m) None \<and>
               fst (render_frame ?tm ?hm) = None) \<and>
            (type (info t) = cut_type \<longrightarrow>
               fst (render_frame ?tm ?hm) =
                 (if current_frame ?tm < duration (info t)
                  then fst (render_frame_of (factory t) (source_producer ?tm) ?hm)
                  else None))"
        using dm res wd later[of m] by (simp del: render_frames.simps) }
    with d da r show ?thesis by (simp add: Let_def del: render_frames.simps)
  qed
  have C: "source = None \<and> source_producer ?t' = None \<and>
       (type (info t) = cut_type \<or> dest = None \<longrightarrow> fst (render_frame t h) = None) \<and>
       (type (info t) \<noteq> cut_type \<longrightarrow>
          (\<forall>d. dest = Some d \<longrightarrow>
             (\<exists>c. fst (render_frame t h) = Some c \<and>
                  frames (snd (snd (render_frame t h)) ! c) = [d]))) \<and>
       (\<forall>m. let tm = fst (snd (render_frames (Suc m) t h));
                hm = snd (snd (render_frames (Suc m) t h))
            in source_producer tm = None \<and>
               current_frame tm = current_frame t + 1 + of_nat m \<and>
               (type (info t) = cut_type \<longrightarrow> fst (render_frame tm hm) = None) \<and>
               (type (info t) \<noteq> cut_type \<and> current_frame tm < duration (info t) \<longrightarrow>
                  (\<forall>d dp' g.
                     render_frame_of (factory t) (dest_producer tm) hm = (Some d, dp', g) \<longrightarrow>
                     (\<exists>c. fst (render_frame tm hm) = Some c \<and>
                          frames (snd (snd (render_frame tm hm)) ! c) = [d]))) \<and>
               (type (info t) \<noteq> cut_type \<and>
                fst (render_frame_of (factory t) (dest_producer tm) hm) = None \<longrightarrow>
                  fst (render_frame tm hm) = None))"
    if th: "child_throws (factory t) (source_producer t) h1"
  proof -
    from child_throws_removed[OF th source] have s: "source = None" "sp = None" by simp_all
    then have sa: "source_producer ?t' = None" unfolding t' by simp
    have r1: "type (info t) = cut_type \<or> dest = None \<longrightarrow> fst (render_frame t h) = None"
      unfolding rf using s
      by (cases "type (info t) = cut_type") (auto simp: compose_cut compose_no_dest)
    have r2: "type (info t) \<noteq> cut_type \<longrightarrow>
          (\<forall>d. dest = Some d \<longrightarrow>
             (\<exists>c. fst (render_frame t h) = Some c \<and>
                  frames (snd (snd (render_frame t h)) ! c) = [d]))"
    proof (intro impI allI)
      fix d assume nc: "type (info t) \<noteq> cut_type" and d: "dest = Some d"
      from dest d have dest': "render_frame_of (factory t) (dest_producer t) h = (Some d, dp, h1)"
        by simp
      from render_frame_composite[OF nc run dest' source] s
      show "\<exists>c. fst (render_frame t h) = Some c \<and> frames (snd (snd (render_frame t h)) ! c) = [d]"
        by (simp add: nth_append gpu_composite_frame_def)
    qed
    { fix m
      let ?tm = "fst (snd (render_frames (Suc m) t h))"
      let ?hm = "snd (snd (render_frames (Suc m) t h))"
      from render_frames_source_absent[OF sa, of m ?h']
      have sm: "source_producer ?tm = None"
        by (simp add: render_frames_Suc_state del: render_frames.simps)
      note ws = render_frame_without_source[OF sm, of ?hm]
      have "source_producer ?tm = None \<and>
            current_frame ?tm = current_frame t + 1 + of_nat m \<and>
            (type (info t) = cut_type \<longrightarrow> fst (render_frame ?tm ?hm) = None) \<and>
            (type (info t) \<noteq> cut_type \<and> current_frame ?tm < duration (info t) \<longrightarrow>
               (\<forall>d dp' g.
                  render_frame_of (factory t) (dest_producer ?tm) ?hm = (Some d, dp', g) \<longrightarrow>
                  (\<exists>c. fst (render_frame ?tm ?hm) = Some c \<and>
                       frames (snd (snd (render_frame ?tm ?hm)) ! c) = [d]))) \<and>
            (type (info t) \<noteq> cut_type \<and>
             fst (render_frame_of (factory t) (dest_producer ?tm) ?hm) = None \<longrightarrow>
               fst (render_frame ?tm ?hm) = None)"
        using sm ws later[of m] by (simp del: render_frames.simps) }
    with s sa r1 r2 show ?thesis by (simp add: Let_def del: render_frames.simps)
  qed
  from A D E B C show ?thesis by blast
qed

theorem child_failure_absorbed_witness:
  "current_frame ((example_transition mix 10)\<lparr>dest_producer := Some (Producer [Throws] None None None)\<rparr>)
     < duration (info ((example_transition mix 10)\<lparr>dest_producer := Some (Producer [Throws] None None None)\<rparr>)) \<and>
   child_throws None (Some (Producer [Throws] None None None)) [] \<and>
   dest_producer (fst (snd (render_frame
     ((example_transition mix 10)\<lparr>dest_producer := Some (Producer [Throws] None None None)\<rparr>) []))) = None \<and>
   fst (render_frames (Suc (Suc 0))
     ((example_transition mix 10)\<lparr>dest_producer := Some (Producer [Throws] None None None)\<rparr>) [])
     = [None, None] \<and>
   child_throws None (Some (Producer [] (Some (Producer [Throws] None None None)) None None)) [] \<and>
   dest_producer (fst (snd (render_frame
     ((example_transition mix 10)
        \<lparr>dest_producer := Some (Producer [] (Some (Producer [Throws] None None None)) None None)\<rparr>) []))) = None \<and>
   fst (render_frame
     ((example_transition mix 10)
        \<lparr>dest_producer := Some (Producer [] (Some (Producer [Throws] None None None)) None None)\<rparr>) []) = None \<and>
   child_throws None (Some (Producer [Throws] None None None)) [example_frame] \<and>
   source_producer (fst (snd (render_frame
     ((example_transition mix 10)\<lparr>source_producer := Some (Producer [Throws] None None None)\<rparr>) []))) = None \<and>
   fst (render_frame
     ((example_transition mix 10)\<lparr>source_producer := Some (Producer [Throws] None None None)\<rparr>) []) = Some 1 \<and>
   frames (snd (snd (render_frame
     ((example_transition mix 10)\<lparr>source_producer := Some (Producer [Throws] None None None)\<rparr>) [])) ! 1) = [0] \<and>
   fst (render_frame
     (fst (snd (render_frames (Suc 0)
        ((example_transition mix 10)\<lparr>source_producer := Some (Producer [Throws] None None None)\<rparr>) [])))
     (snd (snd (render_frames (Suc 0)
        ((example_transition mix 10)\<lparr>source_producer := Some (Producer [Throws] None None None)\<rparr>) []))))
     = Some 3 \<and>
   frames (snd (snd (render_frame
     (fst (snd (render_frames (Suc 0)
        ((example_transition mix 10)\<lparr>source_producer := Some (Producer [Throws] None None None)\<rparr>) [])))
     (snd (snd (render_frames (Suc 0)
        ((example_transition mix 10)\<lparr>source_producer := Some (Producer [Throws] None None None)\<rparr>) []))))) ! 3)
     = [2]"
proof -
  let ?P = "Producer [Throws] None None None"
  let ?Q = "Producer [] (Some ?P) None None"
  let ?a = "(example_transition mix 10)\<lparr>dest_producer := Some ?P\<rparr>"
  let ?b = "(example_transition mix 10)\<lparr>source_producer := Some ?P\<rparr>"
  let ?c = "(example_transition mix 10)\<lparr>dest_producer := Some ?Q\<rparr>"
  let ?da = "render_frame_of (factory ?a) (dest_producer ?a) []"
  let ?sa = "render_frame_of (factory ?a) (source_producer ?a) (snd (snd ?da))"
  let ?dc = "render_frame_of (factory ?c) (dest_producer ?c) []"
  let ?sc = "render_frame_of (factory ?c) (source_producer ?c) (snd (snd ?dc))"
  let ?db = "render_frame_of (factory ?b) (dest_producer ?b) []"
  let ?sb = "render_frame_of (factory ?b) (source_producer ?b) [example_frame]"
  let ?tm = "fst (snd (render_frames (Suc 0) ?b []))"
  let ?hm = "snd (snd (render_frames (Suc 0) ?b []))"
  have run: "current_frame ?a < duration (info ?a)" "current_frame ?b < duration (info ?b)"
      "current_frame ?c < duration (info ?c)"
    by (simp_all add: example_transition_def)
  have ty: "type (info ?a) \<noteq> cut_type" "type (info ?b) \<noteq> cut_type" "type (info ?c) \<noteq> cut_type"
    by (simp_all add: example_transition_def)
  have da: "?da = (fst ?da, fst (snd ?da), snd (snd ?da))" by simp
  have sa: "?sa = (fst ?sa, fst (snd ?sa), snd (snd ?sa))" by simp
  have dc: "?dc = (fst ?dc, fst (snd ?dc), snd (snd ?dc))" by simp
  have sc: "?sc = (fst ?sc, fst (snd ?sc), snd (snd ?sc))" by simp
  have db: "?db = (Some 0, fst (snd ?db), [example_frame])"
  proof -
    have "fst ?db = Some 0 \<and> snd (snd ?db) = [example_frame]" by code_simp
    then show ?thesis by (simp add: prod_eq_iff)
  qed
  have sb: "?sb = (fst ?sb, fst (snd ?sb), snd (snd ?sb))" by simp
  have tha0: "child_throws None (Some ?P) []" by code_simp
  have thc0: "child_throws None (Some ?Q) []" by code_simp
  have thb0: "child_throws None (Some ?P) [example_frame]" by code_simp
  have tha: "child_throws (factory ?a) (dest_producer ?a) []"
    using tha0 by (simp add: example_transition_def)
  have thc: "child_throws (factory ?c) (dest_producer ?c) []"
    using thc0 by (simp add: example_transition_def)
  have thb: "child_throws (factory ?b) (source_producer ?b) [example_frame]"
    using thb0 by (simp add: example_transition_def)
  have rb: "fst (render_frame ?b []) = Some 1" by code_simp
  have nxt: "current_frame ?tm < duration (info ?b)" by code_simp
  have dm: "render_frame_of (factory ?b) (dest_producer ?tm) ?hm
              = (Some 2, fst (snd (render_frame_of (factory ?b) (dest_producer ?tm) ?hm)),
                 snd (snd (render_frame_of (factory ?b) (dest_producer ?tm) ?hm)))"
  proof -
    have "fst (render_frame_of (factory ?b) (dest_producer ?tm) ?hm) = Some 2" by code_simp
    then show ?thesis by (simp add: prod_eq_iff del: render_frames.simps)
  qed
  have rm: "fst (render_frame ?tm ?hm) = Some 3" by code_simp
  note ia = child_failure_absorbed [OF run(1) da sa, unfolded Let_def]
  note ib = child_failure_absorbed [OF run(2) db sb, unfolded Let_def]
  note ic = child_failure_absorbed [OF run(3) dc sc, unfolded Let_def]
  from ia tha ty(1)
  have 1: "dest_producer (fst (snd (render_frame ?a []))) = None \<and>
           fst (render_frames (Suc (Suc 0)) ?a []) = replicate (Suc (Suc 0)) None"
    by blast
  from ic thc ty(3)
  have 2: "dest_producer (fst (snd (render_frame ?c []))) = None \<and> fst (render_frame ?c []) = None"
    by (metis (no_types, lifting))
  from ib thb ty(2)
  have 3: "source_producer (fst (snd (render_frame ?b []))) = None \<and>
           (\<exists>c. fst (render_frame ?b []) = Some c \<and> frames (snd (snd (render_frame ?b [])) ! c) = [0])"
    by (metis (no_types, lifting))
  with rb have 4: "frames (snd (snd (render_frame ?b [])) ! 1) = [0]" by auto
  from ib thb ty(2) nxt dm
  have "\<exists>c. fst (render_frame ?tm ?hm) = Some c \<and> frames (snd (snd (render_frame ?tm ?hm)) ! c) = [2]"
    by blast
  with rm have 5: "frames (snd (snd (render_frame ?tm ?hm)) ! 3) = [2]" by auto
  have rep: "replicate (Suc (Suc 0)) None = [None, None :: frame_ptr option]" by simp
  from run(1) tha0 thc0 thb0 1 2 3 rb 4 rm 5 show ?thesis
    unfolding rep by blast
qed

section \<open>Auto-advance of a child\<close>

text \<open>
  Claim C10: inside the transition's per-child rendering, when a child (dest or
  source) returns the exhausted sentinel and has a following producer, the transition
  itself advances that child: the following producer is initialized with the stored
  factory, given the exhausted child as leading producer, substituted for the child,
  and rendering is retried recursively with no bound on the retries in a call (a chain
  of any number of exhausted children is walked in one call); the substitute is stored
  in the member, so get_following_producer thereafter returns the advanced dest, not
  the dest supplied at construction.
\<close>

theorem auto_advance:
  "(\<forall>p' h' fo. producer_render_frame p h = (Inr None, p', h') \<and>
        producer_get_following_producer p' = Some fo \<longrightarrow>
        render_frame_of fac (Some p) h =
          render_frame_of fac (Some (Producer (script fo) (following fo) (Some p') fac)) h') \<and>
   (\<forall>f rest. script q = Frame f # rest \<longrightarrow>
      (\<exists>l. render_frame_of fac (Some (exhausted_chain (Suc n) q)) h
             = (Some (length h), Some (Producer rest (following q) (Some l) fac), h @ [f]))) \<and>
   (\<forall>dest dp h1 source sp h2.
      current_frame t < duration (info t) \<and>
      render_frame_of (factory t) (dest_producer t) h = (dest, dp, h1) \<and>
      render_frame_of (factory t) (source_producer t) h1 = (source, sp, h2) \<longrightarrow>
      get_following_producer (fst (snd (render_frame t h))) = dp \<and>
      source_producer (fst (snd (render_frame t h))) = sp) \<and>
   (\<forall>d d' h' fo f rest.
      current_frame t < duration (info t) \<and> dest_producer t = Some d \<and>
      producer_render_frame d h = (Inr None, d', h') \<and>
      producer_get_following_producer d' = Some fo \<and> script fo = Frame f # rest \<longrightarrow>
      get_following_producer (fst (snd (render_frame t h)))
        = Some (Producer rest (following fo) (Some d') (factory t)))"
proof (intro conjI allI impI)
  fix p' h' fo
  assume "producer_render_frame p h = (Inr None, p', h') \<and>
          producer_get_following_producer p' = Some fo"
  then show "render_frame_of fac (Some p) h =
          render_frame_of fac (Some (Producer (script fo) (following fo) (Some p') fac)) h'"
    using render_frame_of_advance by blast
next
  fix f rest assume q: "script q = Frame f # rest"
  from render_frame_of_chain[OF q, of fac "Suc n" None None h]
  show "\<exists>l. render_frame_of fac (Some (exhausted_chain (Suc n) q)) h
             = (Some (length h), Some (Producer rest (following q) (Some l) fac), h @ [f])"
    by auto
next
  fix dest dp h1 source sp h2
  assume a: "current_frame t < duration (info t) \<and>
      render_frame_of (factory t) (dest_producer t) h = (dest, dp, h1) \<and>
      render_frame_of (factory t) (source_producer t) h1 = (source, sp, h2)"
  then have "fst (snd (render_frame t h))
        = t\<lparr>current_frame := current_frame t + 1, dest_producer := dp, source_producer := sp\<rparr>"
    using render_frame_running[of t h dest dp h1 source sp h2] by simp
  then show "get_following_producer (fst (snd (render_frame t h))) = dp"
    and "source_producer (fst (snd (render_frame t h))) = sp"
    by (simp_all add: get_following_producer_def)
next
  fix d d' h' fo f rest
  assume a: "current_frame t < duration (info t) \<and> dest_producer t = Some d \<and>
      producer_render_frame d h = (Inr None, d', h') \<and>
      producer_get_following_producer d' = Some fo \<and> script fo = Frame f # rest"
  then have adv: "render_frame_of (factory t) (dest_producer t) h =
          render_frame_of (factory t)
            (Some (Producer (script fo) (following fo) (Some d') (factory t))) h'"
    using render_frame_of_advance[of d h d' h' fo "factory t"] by simp
  from a have "render_frame_of (factory t)
            (Some (Producer (script fo) (following fo) (Some d') (factory t))) h'
          = (Some (length h'), Some (Producer rest (following fo) (Some d') (factory t)), h' @ [f])"
    by (simp add: producer_render_frame_def make_shared_def)
  with adv have dest: "render_frame_of (factory t) (dest_producer t) h
          = (Some (length h'), Some (Producer rest (following fo) (Some d') (factory t)), h' @ [f])"
    by simp
  obtain source sp h2 where
    source: "render_frame_of (factory t) (source_producer t) (h' @ [f]) = (source, sp, h2)"
    by (cases "render_frame_of (factory t) (source_producer t) (h' @ [f])") auto
  from a have run: "current_frame t < duration (info t)" by simp
  from render_frame_running[OF run dest source]
  show "get_following_producer (fst (snd (render_frame t h)))
        = Some (Producer rest (following fo) (Some d') (factory t))"
    by (simp add: get_following_producer_def)
qed

theorem auto_advance_witness:
  "current_frame ((example_transition mix 10)
      \<lparr>dest_producer := Some (exhausted_chain 1 (example_producer 3)), factory := Some 7\<rparr>)
     < duration (info ((example_transition mix 10)
      \<lparr>dest_producer := Some (exhausted_chain 1 (example_producer 3)), factory := Some 7\<rparr>)) \<and>
   get_following_producer (fst (snd (render_frame ((example_transition mix 10)
      \<lparr>dest_producer := Some (exhausted_chain 1 (example_producer 3)), factory := Some 7\<rparr>) [])))
     = Some (Producer [Frame example_frame, Frame example_frame] None
               (Some (exhausted_chain 1 (example_producer 3))) (Some 7)) \<and>
   get_following_producer (fst (snd (render_frame ((example_transition mix 10)
      \<lparr>dest_producer := Some (exhausted_chain 1 (example_producer 3)), factory := Some 7\<rparr>) [])))
     \<noteq> get_following_producer ((example_transition mix 10)
      \<lparr>dest_producer := Some (exhausted_chain 1 (example_producer 3)), factory := Some 7\<rparr>) \<and>
   fst (render_frame_of (Some 7) (Some (exhausted_chain 2 (example_producer 3))) []) = Some 0 \<and>
   snd (snd (render_frame_of (Some 7) (Some (exhausted_chain 2 (example_producer 3))) []))
     = [example_frame]"
proof -
  let ?d = "exhausted_chain 1 (example_producer 3)"
  let ?T = "(example_transition mix 10)\<lparr>dest_producer := Some ?d, factory := Some 7\<rparr>"
  let ?rest = "[Frame example_frame, Frame example_frame]"
  have run: "current_frame ?T < duration (info ?T)" by (simp add: example_transition_def)
  have sc: "script (example_producer 3) = Frame example_frame # ?rest"
    by (simp add: example_producer_def numeral_3_eq_3)
  have fo: "following (example_producer 3) = None" by (simp add: example_producer_def)
  have hyp: "current_frame ?T < duration (info ?T) \<and> dest_producer ?T = Some ?d \<and>
             producer_render_frame ?d [] = (Inr None, ?d, []) \<and>
             producer_get_following_producer ?d = Some (example_producer 3) \<and>
             script (example_producer 3) = Frame example_frame # ?rest"
    using run sc by (simp add: producer_render_frame_def producer_get_following_producer_def)
  have fac: "factory ?T = Some 7" by simp
  note inst = auto_advance [where t = ?T and h = "[]" and q = "example_producer 3" and n = 1
      and fac = "Some 7" and p = ?d]
  from inst hyp
  have "get_following_producer (fst (snd (render_frame ?T [])))
          = Some (Producer ?rest (following (example_producer 3)) (Some ?d) (factory ?T))"
    by (metis (no_types, lifting))
  then have 1: "get_following_producer (fst (snd (render_frame ?T [])))
          = Some (Producer ?rest None (Some ?d) (Some 7))"
    unfolding fo fac .
  have 2: "get_following_producer ?T = Some ?d" by (simp add: get_following_producer_def)
  have 3: "Some (Producer ?rest None (Some ?d) (Some 7)) \<noteq> Some ?d" by simp
  from inst sc
  have "\<exists>l. render_frame_of (Some 7) (Some (exhausted_chain (Suc 1) (example_producer 3))) []
           = (Some (length ([] :: store)),
              Some (Producer ?rest (following (example_producer 3)) (Some l) (Some 7)),
              [] @ [example_frame])"
    by (metis (no_types, lifting))
  then have 4: "fst (render_frame_of (Some 7) (Some (exhausted_chain 2 (example_producer 3))) []) = Some 0 \<and>
                snd (snd (render_frame_of (Some 7) (Some (exhausted_chain 2 (example_producer 3))) []))
                  = [example_frame]"
    by (auto simp: numeral_2_eq_2)
  from run 1 2 3 4 show ?thesis by (simp only:) blast
qed

end
